theory Spec2Isabelle
  imports Complex_Main
begin

text \<open>
  A shallow embedding of \<^verbatim>\<open>generate_tetrahedron.py\<close> (class \<^verbatim>\<open>Complex\<close>): the constructor,
  \<^verbatim>\<open>distance\<close>, \<^verbatim>\<open>find_centroid\<close>, \<^verbatim>\<open>generate_substituent_vectors\<close> and \<^verbatim>\<open>write_xyz\<close>.
  The static method \<^verbatim>\<open>find_angle\<close> is called nowhere and is left out. The object is a
  record that the methods take and return, because \<^verbatim>\<open>find_centroid\<close> assigns to one of
  its fields. Python 3 on a POSIX system is assumed for the text-mode file operations.
\<close>

section \<open>Numbers: numpy float64 idealised\<close>

text \<open>
  The program computes with numpy float64 values. The model computes with exact real
  numbers instead: it does not round, overflow or underflow. It has one more value,
  \<open>NonFinite\<close>, that stands for \<^verbatim>\<open>nan\<close>, \<^verbatim>\<open>inf\<close> and \<^verbatim>\<open>-inf\<close> alike: numpy does not raise on
  a division by zero, it returns \<^verbatim>\<open>nan\<close> (for \<^verbatim>\<open>0/0\<close>) or an infinity. The coordinates read
  from the atom table are finite, so in the model a non-finite value can only enter
  through a division by zero, and every operation the program then applies to it (\<open>+\<close>,
  \<open>-\<close>, \<open>*\<close>, a division by a \<^verbatim>\<open>nan\<close>, a square root) gives a non-finite value again.

  The model gives the program's value exactly where float64 computes exactly (zero, small
  integers, a division by zero and what follows from it). Elsewhere the program's value
  is the model's up to rounding, as long as nothing overflows, underflows or is absorbed;
  near the singular direction, or with very large or very small coordinates, the two
  part. The properties below are stated accordingly: as evaluations at concrete inputs
  whose statement does not depend on rounding (a non-finite result, an inequality, a
  tolerance), as statements about text, or for \<open>float_safe\<close> inputs and within a tolerance.
\<close>

datatype np_float = Fin real | NonFinite

text \<open>
  The operators of the program on these values. The division sign belongs to the class
  \<open>inverse\<close>, which also asks for the reciprocal; the program never calls it.
\<close>

instantiation np_float :: "{zero, one, plus, minus, uminus, times, inverse}"
begin

definition zero_np_float :: np_float where
  "zero_np_float = Fin 0"

definition one_np_float :: np_float where
  "one_np_float = Fin 1"

definition plus_np_float :: "np_float \<Rightarrow> np_float \<Rightarrow> np_float" where
  "plus_np_float a b = (case a of NonFinite \<Rightarrow> NonFinite
     | Fin x \<Rightarrow> (case b of NonFinite \<Rightarrow> NonFinite | Fin y \<Rightarrow> Fin (x + y)))"

definition minus_np_float :: "np_float \<Rightarrow> np_float \<Rightarrow> np_float" where
  "minus_np_float a b = (case a of NonFinite \<Rightarrow> NonFinite
     | Fin x \<Rightarrow> (case b of NonFinite \<Rightarrow> NonFinite | Fin y \<Rightarrow> Fin (x - y)))"

definition uminus_np_float :: "np_float \<Rightarrow> np_float" where
  "uminus_np_float a = (case a of NonFinite \<Rightarrow> NonFinite | Fin x \<Rightarrow> Fin (- x))"

definition times_np_float :: "np_float \<Rightarrow> np_float \<Rightarrow> np_float" where
  "times_np_float a b = (case a of NonFinite \<Rightarrow> NonFinite
     | Fin x \<Rightarrow> (case b of NonFinite \<Rightarrow> NonFinite | Fin y \<Rightarrow> Fin (x * y)))"

definition divide_np_float :: "np_float \<Rightarrow> np_float \<Rightarrow> np_float" where
  "divide_np_float a b = (case a of NonFinite \<Rightarrow> NonFinite
     | Fin x \<Rightarrow> (case b of NonFinite \<Rightarrow> NonFinite
         | Fin y \<Rightarrow> if y = 0 then NonFinite else Fin (x / y)))"

definition inverse_np_float :: "np_float \<Rightarrow> np_float" where
  "inverse_np_float a = (case a of NonFinite \<Rightarrow> NonFinite
     | Fin y \<Rightarrow> if y = 0 then NonFinite else Fin (1 / y))"

instance ..

end

text \<open>\<^verbatim>\<open>np.sqrt\<close>: \<^verbatim>\<open>nan\<close> on a negative argument.\<close>

definition np_sqrt :: "np_float \<Rightarrow> np_float" where
  "np_sqrt a = (case a of NonFinite \<Rightarrow> NonFinite
     | Fin x \<Rightarrow> if x < 0 then NonFinite else Fin (sqrt x))"

definition isfinite :: "np_float \<Rightarrow> bool" where
  "isfinite a = (case a of Fin x \<Rightarrow> True | NonFinite \<Rightarrow> False)"

section \<open>Vectors and 3x3 matrices\<close>

type_synonym vec3 = "np_float \<times> np_float \<times> np_float"

text \<open>A matrix is the triple of its rows.\<close>

type_synonym mat3 = "vec3 \<times> vec3 \<times> vec3"

fun vec_add :: "vec3 \<Rightarrow> vec3 \<Rightarrow> vec3" where
  "vec_add (a0, a1, a2) (b0, b1, b2) = (a0 + b0, a1 + b1, a2 + b2)"

fun vec_sub :: "vec3 \<Rightarrow> vec3 \<Rightarrow> vec3" where
  "vec_sub (a0, a1, a2) (b0, b1, b2) = (a0 - b0, a1 - b1, a2 - b2)"

fun vec_neg :: "vec3 \<Rightarrow> vec3" where
  "vec_neg (a0, a1, a2) = (- a0, - a1, - a2)"

text \<open>\<^verbatim>\<open>s * v\<close> and \<^verbatim>\<open>v / s\<close> for a scalar \<open>s\<close>.\<close>

fun scal_mul :: "np_float \<Rightarrow> vec3 \<Rightarrow> vec3" where
  "scal_mul s (a0, a1, a2) = (s * a0, s * a1, s * a2)"

fun vec_div :: "vec3 \<Rightarrow> np_float \<Rightarrow> vec3" where
  "vec_div (a0, a1, a2) s = (a0 / s, a1 / s, a2 / s)"

text \<open>\<^verbatim>\<open>np.linalg.norm\<close> of a vector.\<close>

fun linalg_norm :: "vec3 \<Rightarrow> np_float" where
  "linalg_norm (a0, a1, a2) = np_sqrt (a0 * a0 + a1 * a1 + a2 * a2)"

text \<open>\<^verbatim>\<open>np.cross\<close> and \<^verbatim>\<open>np.dot\<close> of two vectors.\<close>

fun cross :: "vec3 \<Rightarrow> vec3 \<Rightarrow> vec3" where
  "cross (a0, a1, a2) (b0, b1, b2) =
     (a1 * b2 - a2 * b1, a2 * b0 - a0 * b2, a0 * b1 - a1 * b0)"

fun dot :: "vec3 \<Rightarrow> vec3 \<Rightarrow> np_float" where
  "dot (a0, a1, a2) (b0, b1, b2) = a0 * b0 + a1 * b1 + a2 * b2"

fun mat_col :: "mat3 \<Rightarrow> nat \<Rightarrow> vec3" where
  "mat_col ((a00, a01, a02), (a10, a11, a12), (a20, a21, a22)) j =
     (if j = 0 then (a00, a10, a20) else if j = 1 then (a01, a11, a21) else (a02, a12, a22))"

text \<open>\<^verbatim>\<open>np.dot\<close> of a matrix and a vector, and of two matrices.\<close>

fun mat_vec :: "mat3 \<Rightarrow> vec3 \<Rightarrow> vec3" where
  "mat_vec (r0, r1, r2) v = (dot r0 v, dot r1 v, dot r2 v)"

fun mat_mul :: "mat3 \<Rightarrow> mat3 \<Rightarrow> mat3" where
  "mat_mul (r0, r1, r2) m =
     ((dot r0 (mat_col m 0), dot r0 (mat_col m 1), dot r0 (mat_col m 2)),
      (dot r1 (mat_col m 0), dot r1 (mat_col m 1), dot r1 (mat_col m 2)),
      (dot r2 (mat_col m 0), dot r2 (mat_col m 1), dot r2 (mat_col m 2)))"

fun mat_add :: "mat3 \<Rightarrow> mat3 \<Rightarrow> mat3" where
  "mat_add (r0, r1, r2) (s0, s1, s2) = (vec_add r0 s0, vec_add r1 s1, vec_add r2 s2)"

text \<open>Element-wise \<^verbatim>\<open>s * m\<close> and \<^verbatim>\<open>m * s\<close> for a scalar \<open>s\<close>.\<close>

fun scal_mat :: "np_float \<Rightarrow> mat3 \<Rightarrow> mat3" where
  "scal_mat s (r0, r1, r2) = (scal_mul s r0, scal_mul s r1, scal_mul s r2)"

fun mat_scal :: "mat3 \<Rightarrow> np_float \<Rightarrow> mat3" where
  "mat_scal ((a00, a01, a02), (a10, a11, a12), (a20, a21, a22)) s =
     ((a00 * s, a01 * s, a02 * s), (a10 * s, a11 * s, a12 * s), (a20 * s, a21 * s, a22 * s))"

definition eye3 :: mat3 where
  "eye3 = ((1, 0, 0), (0, 1, 0), (0, 0, 1))"

definition zeros3 :: vec3 where
  "zeros3 = (0, 0, 0)"

section \<open>The class \<^verbatim>\<open>Complex\<close>\<close>

text \<open>
  The atom table that pandas reads from the \<^verbatim>\<open>.xyz\<close> file: one row per atom, a label
  and three finite coordinates. Reading and parsing the file is pandas' work and is
  not modelled; the constructor takes the parsed table.
\<close>

type_synonym atom_row = "string \<times> real \<times> real \<times> real"

datatype error = KeyError | IndexError | FileNotFoundError

record Complex =
  data_matrix :: "atom_row list"
  atom_to_be_functionalized_index :: nat
  atom_to_be_functionalized_xyz :: vec3
  bonded_atom_index :: nat
  bonded_atom_xyz :: vec3
  bond_length :: vec3
  bond_length_norm :: vec3
  equilateral_triangle :: mat3

text \<open>\<^verbatim>\<open>data_matrix.loc[i, ['x', 'y', 'z']]\<close>: a missing row label raises \<^verbatim>\<open>KeyError\<close>.\<close>

definition loc_xyz :: "atom_row list \<Rightarrow> nat \<Rightarrow> error + vec3" where
  "loc_xyz dm i =
     (if i < length dm then (case dm ! i of (a, x, y, z) \<Rightarrow> Inr (Fin x, Fin y, Fin z))
      else Inl KeyError)"

text \<open>\<^verbatim>\<open>data_matrix.loc[i, ['atom', 'x', 'y', 'z']]\<close>.\<close>

definition loc_row :: "atom_row list \<Rightarrow> nat \<Rightarrow> error + (string \<times> vec3)" where
  "loc_row dm i =
     (if i < length dm then (case dm ! i of (a, x, y, z) \<Rightarrow> Inr (a, (Fin x, Fin y, Fin z)))
      else Inl KeyError)"

text \<open>\<^verbatim>\<open>Complex.__init__\<close>, from the parsed table.\<close>

definition Complex_init :: "atom_row list \<Rightarrow> error + Complex" where
  "Complex_init dm =
     (case loc_xyz dm 0 of Inl e \<Rightarrow> Inl e
      | Inr heavy \<Rightarrow>
     (case loc_xyz dm 1 of Inl e \<Rightarrow> Inl e
      | Inr bonded \<Rightarrow>
        (let bl = vec_sub heavy bonded
         in Inr \<lparr> data_matrix = dm,
                  atom_to_be_functionalized_index = 0,
                  atom_to_be_functionalized_xyz = heavy,
                  bonded_atom_index = 1,
                  bonded_atom_xyz = bonded,
                  bond_length = bl,
                  bond_length_norm = vec_div bl (linalg_norm bl),
                  equilateral_triangle =
                    ((Fin 0, Fin 1 / np_sqrt (Fin 3), Fin 0),
                     (Fin (- (1/2)), Fin (- (1/2)) / np_sqrt (Fin 3), Fin 0),
                     (Fin (1/2), Fin (- (1/2)) / np_sqrt (Fin 3), Fin 0)) \<rparr>)))"

text \<open>\<^verbatim>\<open>Complex.distance\<close>.\<close>

definition distance :: "vec3 \<Rightarrow> vec3 \<Rightarrow> np_float" where
  "distance a b =
     (case vec_sub a b of (d0, d1, d2) \<Rightarrow> np_sqrt (d0 * d0 + d1 * d1 + d2 * d2))"

text \<open>
  \<^verbatim>\<open>Complex.find_centroid\<close>. It assigns to \<^verbatim>\<open>self.equilateral_triangle\<close>, so the
  object is passed in and returned.
\<close>

definition find_centroid :: "Complex \<Rightarrow> Complex \<times> vec3" where
  "find_centroid self =
     (let b = distance (atom_to_be_functionalized_xyz self) (bonded_atom_xyz self);
          b = b * (Fin 2 * np_sqrt (Fin 2 / Fin 3));
          self = self \<lparr> equilateral_triangle := scal_mat b (equilateral_triangle self) \<rparr>;
          centroid = vec_add (atom_to_be_functionalized_xyz self)
                       (scal_mul (b / Fin 3) (bond_length_norm self))
      in (self, centroid))"

text \<open>\<^verbatim>\<open>Complex.generate_substituent_vectors\<close>.\<close>

definition generate_substituent_vectors :: "Complex \<Rightarrow> Complex \<times> (vec3 \<times> vec3 \<times> vec3)" where
  "generate_substituent_vectors self0 =
     (case find_centroid self0 of (self, centroid) \<Rightarrow>
      (case equilateral_triangle self of (v1, v2, v3) \<Rightarrow>
      (let normal_vector = (Fin 0, Fin 0, Fin 1);
           normal_vector = vec_div normal_vector (linalg_norm normal_vector);
           starting_coordinate = zeros3;
           bln = bond_length_norm self
       in (case cross normal_vector bln of (w0, w1, w2) \<Rightarrow>
          (let v_x = ((Fin 0, - w2, w1), (w2, Fin 0, - w0), (- w1, w0, Fin 0));
               v_xsq = mat_mul v_x v_x;
               c = dot bln normal_vector;
               rotation_matrix =
                 mat_add (mat_add eye3 v_x) (mat_scal v_xsq (Fin 1 / (Fin 1 + c)));
               substituent_1_vector = mat_vec rotation_matrix v1;
               substituent_2_vector = mat_vec rotation_matrix v2;
               substituent_3_vector = mat_vec rotation_matrix v3;
               substituent_1_vector =
                 vec_add (vec_neg (vec_sub starting_coordinate centroid)) substituent_1_vector;
               substituent_2_vector =
                 vec_add (vec_neg (vec_sub starting_coordinate centroid)) substituent_2_vector;
               substituent_3_vector =
                 vec_add (vec_neg (vec_sub starting_coordinate centroid)) substituent_3_vector
           in (self, (substituent_1_vector, substituent_2_vector, substituent_3_vector)))))))"

section \<open>Writing the \<^verbatim>\<open>.xyz\<close> file\<close>

text \<open>
  The file system is a map from paths to file contents. File contents are text; the
  program runs on a POSIX system, where \<^verbatim>\<open>os.linesep\<close> is the line feed, so writing in
  text mode changes nothing.
\<close>

type_synonym filesystem = "string \<Rightarrow> string option"

definition LF :: char where
  "LF = CHR 0x0A"

definition CR :: char where
  "CR = CHR 0x0D"

text \<open>\<^verbatim>\<open>open(filename, 'a')\<close> followed by \<^verbatim>\<open>write(s)\<close>: the file is created when absent.\<close>

definition file_append :: "filesystem \<Rightarrow> string \<Rightarrow> string \<Rightarrow> filesystem" where
  "file_append fs filename s =
     fs (filename \<mapsto> (case fs filename of None \<Rightarrow> s | Some old \<Rightarrow> old @ s))"

text \<open>
  Reading in text mode (\<^verbatim>\<open>open(filename)\<close>, universal newlines): \<^verbatim>\<open>\r\n\<close> and a lone
  \<^verbatim>\<open>\r\<close> are both read as \<^verbatim>\<open>\n\<close>.
\<close>

fun universal_newlines :: "string \<Rightarrow> string" where
  "universal_newlines [] = []"
| "universal_newlines [c] = [if c = CR then LF else c]"
| "universal_newlines (c # d # cs) =
     (if c = CR \<and> d = LF then LF # universal_newlines cs
      else (if c = CR then LF else c) # universal_newlines (d # cs))"

text \<open>Splitting into lines, each line keeping its \<^verbatim>\<open>\n\<close>.\<close>

fun split_keepends :: "string \<Rightarrow> string list" where
  "split_keepends [] = []"
| "split_keepends (c # cs) =
     (if c = LF then [c] # split_keepends cs
      else (case split_keepends cs of [] \<Rightarrow> [[c]] | l # ls \<Rightarrow> (c # l) # ls))"

text \<open>\<^verbatim>\<open>f.readlines()\<close> on the content of a file opened in text mode.\<close>

definition readlines :: "string \<Rightarrow> string list" where
  "readlines content = split_keepends (universal_newlines content)"

text \<open>
  \<^verbatim>\<open>DataFrame.to_csv(filename, sep=' ', header=False, mode='a')\<close> on a frame indexed by
  the atom label: one line per row, the label and the three coordinates separated by a
  space. How pandas renders a label and a number is not part of this program: the two
  renderings are parameters.
\<close>

definition csv_row :: "(string \<Rightarrow> string) \<Rightarrow> (np_float \<Rightarrow> string) \<Rightarrow> string \<times> vec3 \<Rightarrow> string" where
  "csv_row fmt_label fmt_num row =
     (case row of (a, x, y, z) \<Rightarrow>
        fmt_label a @ '' '' @ fmt_num x @ '' '' @ fmt_num y @ '' '' @ fmt_num z)"

definition to_csv :: "(string \<Rightarrow> string) \<Rightarrow> (np_float \<Rightarrow> string) \<Rightarrow> (string \<times> vec3) list \<Rightarrow> string" where
  "to_csv fmt_label fmt_num rows = concat (map (\<lambda>row. csv_row fmt_label fmt_num row @ [LF]) rows)"

text \<open>\<^verbatim>\<open>s.replace('\r', '').replace('\n', '')\<close>.\<close>

definition strip_newlines :: "string \<Rightarrow> string" where
  "strip_newlines s = filter (\<lambda>c. c \<noteq> LF) (filter (\<lambda>c. c \<noteq> CR) s)"

text \<open>
  \<^verbatim>\<open>Complex.write_xyz\<close>. \<^verbatim>\<open>lines[last]\<close> with \<^verbatim>\<open>last = -1\<close> on an empty list raises
  \<^verbatim>\<open>IndexError\<close>.
\<close>

definition write_xyz ::
  "(string \<Rightarrow> string) \<Rightarrow> (np_float \<Rightarrow> string) \<Rightarrow> Complex \<Rightarrow> filesystem \<Rightarrow> string \<Rightarrow>
     string \<Rightarrow> string \<Rightarrow> string \<Rightarrow> error + (Complex \<times> filesystem)" where
  "write_xyz fmt_label fmt_num self0 fs0 filename substituent_1_atom substituent_2_atom
       substituent_3_atom =
     (case generate_substituent_vectors self0 of (self, v_1, v_2, v_3) \<Rightarrow>
      (case loc_row (data_matrix self) (atom_to_be_functionalized_index self) of
         Inl e \<Rightarrow> Inl e
       | Inr atom_to_be_functionalized \<Rightarrow>
      (case loc_row (data_matrix self) (bonded_atom_index self) of
         Inl e \<Rightarrow> Inl e
       | Inr bonded_atom \<Rightarrow>
        (let write_data = [atom_to_be_functionalized, bonded_atom,
               (substituent_1_atom, v_1), (substituent_2_atom, v_2), (substituent_3_atom, v_3)];
             fs = file_append fs0 filename (''4'' @ [LF]);
             fs = file_append fs filename [LF];
             fs = file_append fs filename (to_csv fmt_label fmt_num write_data)
         in (case fs filename of
               None \<Rightarrow> Inl FileNotFoundError
             | Some content \<Rightarrow>
                (let lines = readlines content
                 in if lines = [] then Inl IndexError
                    else (let last = length lines - 1;
                              lines = lines [last := strip_newlines (lines ! last)]
                          in Inr (self, fs (filename \<mapsto> concat lines)))))))))"

section \<open>Notions used to state the properties\<close>

text \<open>Points and 3x3 matrices (the triple of the rows) with real entries.\<close>

type_synonym real3 = "real \<times> real \<times> real"

type_synonym rmat3 = "real3 \<times> real3 \<times> real3"

text \<open>A vector all of whose components are finite numbers.\<close>

fun all_finite :: "vec3 \<Rightarrow> bool" where
  "all_finite (a0, a1, a2) = (isfinite a0 \<and> isfinite a1 \<and> isfinite a2)"

text \<open>
  A computed number that is finite and within \<open>tol\<close> of the real number \<open>y\<close>; two computed
  numbers, or points, that are finite and within \<open>tol\<close> of one another.
\<close>

definition within_tolerance :: "np_float \<Rightarrow> real \<Rightarrow> real \<Rightarrow> bool" where
  "within_tolerance x y tol = (case x of Fin v \<Rightarrow> \<bar>v - y\<bar> \<le> tol | NonFinite \<Rightarrow> False)"

definition close_np :: "np_float \<Rightarrow> np_float \<Rightarrow> real \<Rightarrow> bool" where
  "close_np x y tol = (case y of Fin w \<Rightarrow> within_tolerance x w tol | NonFinite \<Rightarrow> False)"

fun close_vec :: "vec3 \<Rightarrow> vec3 \<Rightarrow> real \<Rightarrow> bool" where
  "close_vec (a0, a1, a2) (b0, b1, b2) tol =
     (close_np a0 b0 tol \<and> close_np a1 b1 tol \<and> close_np a2 b2 tol)"

text \<open>
  Inputs on which float64 follows the real numbers closely, with a wide margin: the bond
  length \<open>b\<close> lies between \<open>1e-100\<close> and \<open>1e100\<close> (the squares neither overflow nor
  underflow), no coordinate exceeds \<open>1000 * b\<close> in absolute value (the bond is not lost in
  the rounding of the coordinates), and \<open>u\<^sub>z \<ge> -0.999\<close> for the bond direction \<open>u\<close> (so that
  \<open>1 + c \<ge> 0.001\<close>, away from the singular direction \<open>[0, 0, -1]\<close>).
\<close>

fun float_safe :: "real3 \<Rightarrow> real3 \<Rightarrow> real \<Rightarrow> bool" where
  "float_safe (hx, hy, hz) (bx, by, bz) b =
     (1 / 10 ^ 100 \<le> b \<and> b \<le> 10 ^ 100 \<and>
      \<bar>hx\<bar> \<le> 1000 * b \<and> \<bar>hy\<bar> \<le> 1000 * b \<and> \<bar>hz\<bar> \<le> 1000 * b \<and>
      \<bar>bx\<bar> \<le> 1000 * b \<and> \<bar>by\<bar> \<le> 1000 * b \<and> \<bar>bz\<bar> \<le> 1000 * b \<and>
      - (999 / 1000) * b \<le> hz - bz)"

text \<open>The arithmetic mean of three points.\<close>

definition mean3 :: "vec3 \<Rightarrow> vec3 \<Rightarrow> vec3 \<Rightarrow> vec3" where
  "mean3 s1 s2 s3 = vec_div (vec_add (vec_add s1 s2) s3) (Fin 3)"

text \<open>
  A rotation of 3D space: a real matrix whose columns are orthonormal and whose
  determinant is 1.
\<close>

fun is_rotation :: "rmat3 \<Rightarrow> bool" where
  "is_rotation ((q00, q01, q02), (q10, q11, q12), (q20, q21, q22)) =
     (q00 * q00 + q10 * q10 + q20 * q20 = 1 \<and>
      q01 * q01 + q11 * q11 + q21 * q21 = 1 \<and>
      q02 * q02 + q12 * q12 + q22 * q22 = 1 \<and>
      q00 * q01 + q10 * q11 + q20 * q21 = 0 \<and>
      q00 * q02 + q10 * q12 + q20 * q22 = 0 \<and>
      q01 * q02 + q11 * q12 + q21 * q22 = 0 \<and>
      q00 * (q11 * q22 - q12 * q21) - q01 * (q10 * q22 - q12 * q20)
        + q02 * (q10 * q21 - q11 * q20) = 1)"

text \<open>The rotation applied to a point with real coordinates (an input position).\<close>

fun rotate_point :: "rmat3 \<Rightarrow> real3 \<Rightarrow> real3" where
  "rotate_point ((q00, q01, q02), (q10, q11, q12), (q20, q21, q22)) (x, y, z) =
     (q00 * x + q01 * y + q02 * z, q10 * x + q11 * y + q12 * z, q20 * x + q21 * y + q22 * z)"

text \<open>The rotation applied to a computed point.\<close>

fun rotate :: "rmat3 \<Rightarrow> vec3 \<Rightarrow> vec3" where
  "rotate ((q00, q01, q02), (q10, q11, q12), (q20, q21, q22)) v =
     mat_vec ((Fin q00, Fin q01, Fin q02), (Fin q10, Fin q11, Fin q12),
              (Fin q20, Fin q21, Fin q22)) v"

text \<open>
  Used in the proofs: the Rodrigues rotation that takes \<open>(0, 0, 1)\<close> to the unit vector
  \<open>(ux, uy, uz)\<close>, applied to the point \<open>(p, q, 0)\<close> of the template's plane, where \<open>a\<close>
  stands for \<open>1 / (1 + uz)\<close>; and a point placed relative to a centre.
\<close>

definition rot_xy :: "real \<Rightarrow> real \<Rightarrow> real \<Rightarrow> real \<Rightarrow> real \<Rightarrow> real3" where
  "rot_xy ux uy a p q =
     (p - ux * (ux * p + uy * q) * a, q - uy * (ux * p + uy * q) * a, - (ux * p + uy * q))"

fun place :: "real3 \<Rightarrow> real3 \<Rightarrow> vec3" where
  "place (cx, cy, cz) (x, y, z) = (Fin (cx + x), Fin (cy + y), Fin (cz + z))"

section \<open>Arithmetic of the idealised floats\<close>

lemma np_float_arith [simp]:
  "Fin x + Fin y = Fin (x + y)"
  "Fin x - Fin y = Fin (x - y)"
  "Fin x * Fin y = Fin (x * y)"
  "- Fin x = Fin (- x)"
  "NonFinite + a = NonFinite" "a + NonFinite = NonFinite"
  "NonFinite - a = NonFinite" "a - NonFinite = NonFinite"
  "NonFinite * a = NonFinite" "a * NonFinite = NonFinite"
  "NonFinite / a = NonFinite" "a / NonFinite = NonFinite"
  "- NonFinite = NonFinite"
  "(0 :: np_float) = Fin 0" "(1 :: np_float) = Fin 1"
  by (simp_all add: plus_np_float_def minus_np_float_def times_np_float_def
      uminus_np_float_def divide_np_float_def zero_np_float_def one_np_float_def
      split: np_float.splits)

lemma np_float_div [simp]:
  "Fin x / Fin y = (if y = 0 then NonFinite else Fin (x / y))"
  by (simp add: divide_np_float_def)

lemma np_sqrt_simps [simp]:
  "np_sqrt NonFinite = NonFinite"
  "np_sqrt (Fin x) = (if x < 0 then NonFinite else Fin (sqrt x))"
  by (simp_all add: np_sqrt_def)

lemma sumsq_nonneg [simp]: "\<not> (a * a + b * b + c * c < (0::real))"
  by (simp add: not_less)

lemma sumsq_zero_iff: "(a * a + b * b + c * c = (0::real)) = (a = 0 \<and> b = 0 \<and> c = 0)"
proof -
  have "a * a + b * b + c * c = a\<^sup>2 + b\<^sup>2 + c\<^sup>2" by (simp add: power2_eq_square)
  then show ?thesis by (simp add: sum_power2_eq_zero_iff add_nonneg_eq_0_iff)
qed

lemma find_centroid_fin:
  assumes "atom_to_be_functionalized_xyz c = (Fin hx, Fin hy, Fin hz)"
    and "bonded_atom_xyz c = (Fin bx, Fin by, Fin bz)"
    and "bond_length_norm c = (Fin ux, Fin uy, Fin uz)"
    and "B = sqrt ((hx - bx) * (hx - bx) + (hy - by) * (hy - by) + (hz - bz) * (hz - bz)) * (2 * sqrt (2 / 3))"
  shows "find_centroid c =
     (c \<lparr> equilateral_triangle := scal_mat (Fin B) (equilateral_triangle c) \<rparr>,
      (Fin (hx + B / 3 * ux), Fin (hy + B / 3 * uy), Fin (hz + B / 3 * uz)))"
  using assms by (simp add: find_centroid_def distance_def Let_def)

lemma gsv_fin:
  assumes fc: "find_centroid c = (c', (Fin cx, Fin cy, Fin cz))"
    and tri: "equilateral_triangle c' =
       ((Fin p1, Fin q1, Fin 0), (Fin p2, Fin q2, Fin 0), (Fin p3, Fin q3, Fin 0))"
    and bln: "bond_length_norm c' = (Fin ux, Fin uy, Fin uz)"
    and a: "a * (1 + uz) = 1"
  shows "generate_substituent_vectors c =
     (c', place (cx, cy, cz) (rot_xy ux uy a p1 q1),
          place (cx, cy, cz) (rot_xy ux uy a p2 q2),
          place (cx, cy, cz) (rot_xy ux uy a p3 q3))"
proof -
  from a have nz: "1 + uz \<noteq> 0" by auto
  have inv: "x / (1 + uz) = x * a" for x
  proof -
    have "x * a * (1 + uz) = x * (a * (1 + uz))" by (simp only: mult.assoc)
    then have "x * a * (1 + uz) = x" by (simp only: a mult_1_right)
    then show ?thesis using nz by (simp add: divide_eq_eq)
  qed
  show ?thesis
    using nz
    by (simp add: generate_substituent_vectors_def fc tri bln Let_def eye3_def zeros3_def
        rot_xy_def inv algebra_simps)
qed


lemma distance_fin:
  "distance (Fin a0, Fin a1, Fin a2) (Fin b0, Fin b1, Fin b2) =
     Fin (sqrt ((a0 - b0) * (a0 - b0) + (a1 - b1) * (a1 - b1) + (a2 - b2) * (a2 - b2)))"
  by (simp add: distance_def)

lemma distance_place_pair:
  assumes a: "a * (1 + uz) = 1" and unit: "ux * ux + uy * uy + uz * uz = 1"
  shows "distance (place cen (rot_xy ux uy a P1 Q1)) (place cen (rot_xy ux uy a P2 Q2)) =
     Fin (sqrt ((P1 - P2) * (P1 - P2) + (Q1 - Q2) * (Q1 - Q2)))"
proof -
  obtain cx cy cz where cen: "cen = (cx, cy, cz)" by (cases cen) auto
  have "(cx + (P1 - ux * (ux * P1 + uy * Q1) * a) - (cx + (P2 - ux * (ux * P2 + uy * Q2) * a))) *
        (cx + (P1 - ux * (ux * P1 + uy * Q1) * a) - (cx + (P2 - ux * (ux * P2 + uy * Q2) * a))) +
        (cy + (Q1 - uy * (ux * P1 + uy * Q1) * a) - (cy + (Q2 - uy * (ux * P2 + uy * Q2) * a))) *
        (cy + (Q1 - uy * (ux * P1 + uy * Q1) * a) - (cy + (Q2 - uy * (ux * P2 + uy * Q2) * a))) +
        (cz + - (ux * P1 + uy * Q1) - (cz + - (ux * P2 + uy * Q2))) *
        (cz + - (ux * P1 + uy * Q1) - (cz + - (ux * P2 + uy * Q2)))
      = (P1 - P2) * (P1 - P2) + (Q1 - Q2) * (Q1 - Q2)"
    using a unit by algebra
  then show ?thesis
    unfolding cen rot_xy_def place.simps distance_fin by (simp only:)
qed

lemma distance_heavy_place:
  assumes a: "a * (1 + uz) = 1" and unit: "ux * ux + uy * uy + uz * uz = 1"
  shows "distance (Fin hx, Fin hy, Fin hz)
           (place (hx + t * ux, hy + t * uy, hz + t * uz) (rot_xy ux uy a P Q)) =
     Fin (sqrt (t * t + (P * P + Q * Q)))"
proof -
  have "(hx - (hx + t * ux + (P - ux * (ux * P + uy * Q) * a))) *
        (hx - (hx + t * ux + (P - ux * (ux * P + uy * Q) * a))) +
        (hy - (hy + t * uy + (Q - uy * (ux * P + uy * Q) * a))) *
        (hy - (hy + t * uy + (Q - uy * (ux * P + uy * Q) * a))) +
        (hz - (hz + t * uz + - (ux * P + uy * Q))) *
        (hz - (hz + t * uz + - (ux * P + uy * Q)))
      = t * t + (P * P + Q * Q)"
    using a unit by algebra
  then show ?thesis
    unfolding rot_xy_def place.simps distance_fin by (simp only:)
qed


lemma Complex_init_Inr:
  assumes "Complex_init dm = Inr c"
  obtains l0 hx hy hz l1 bx "by" bz rest where
    "dm = (l0, hx, hy, hz) # (l1, bx, by, bz) # rest"
    "c = \<lparr> data_matrix = dm,
           atom_to_be_functionalized_index = 0,
           atom_to_be_functionalized_xyz = (Fin hx, Fin hy, Fin hz),
           bonded_atom_index = 1,
           bonded_atom_xyz = (Fin bx, Fin by, Fin bz),
           bond_length = (Fin (hx - bx), Fin (hy - by), Fin (hz - bz)),
           bond_length_norm = vec_div (Fin (hx - bx), Fin (hy - by), Fin (hz - bz))
             (Fin (sqrt ((hx - bx) * (hx - bx) + (hy - by) * (hy - by) + (hz - bz) * (hz - bz)))),
           equilateral_triangle =
             ((Fin 0, Fin (1 / sqrt 3), Fin 0),
              (Fin (- (1 / 2)), Fin (- (1 / sqrt 3 / 2)), Fin 0),
              (Fin (1 / 2), Fin (- (1 / sqrt 3 / 2)), Fin 0)) \<rparr>"
proof (cases dm)
  case Nil
  with assms show ?thesis by (simp add: Complex_init_def loc_xyz_def)
next
  case (Cons r0 dm')
  note dm = this
  show ?thesis
  proof (cases dm')
    case Nil
    with dm assms show ?thesis by (simp add: Complex_init_def loc_xyz_def split: prod.splits)
  next
    case (Cons r1 rest)
    obtain l0 hx hy hz where r0: "r0 = (l0, hx, hy, hz)" by (cases r0) auto
    obtain l1 bx "by" bz where r1: "r1 = (l1, bx, by, bz)" by (cases r1) auto
    from assms show ?thesis
      by (intro that [of l0 hx hy hz l1 bx "by" bz rest])
         (auto simp: dm Cons r0 r1 Complex_init_def loc_xyz_def Let_def)
  qed
qed



lemma sqrt_sumsq_self:
  fixes dx dy dz :: real
  shows "sqrt (dx * dx + dy * dy + dz * dz) * sqrt (dx * dx + dy * dy + dz * dz)
     = dx * dx + dy * dy + dz * dz"
  by (simp add: abs_of_nonneg)

lemma unit_vector:
  fixes dx dy dz :: real
  assumes n: "n = sqrt (dx * dx + dy * dy + dz * dz)" and pos: "0 < n"
  shows "dx / n * (dx / n) + dy / n * (dy / n) + dz / n * (dz / n) = 1"
proof -
  have nn: "n * n = dx * dx + dy * dy + dz * dz"
    unfolding n by (rule sqrt_sumsq_self)
  have "dx / n * (dx / n) + dy / n * (dy / n) + dz / n * (dz / n)
      = (dx * dx + dy * dy + dz * dz) / (n * n)"
    by (simp add: add_divide_distrib)
  also have "\<dots> = n * n / (n * n)" by (simp only: nn)
  also have "\<dots> = 1" using pos by simp
  finally show ?thesis .
qed

lemma fresh_object:
  assumes init: "Complex_init dm = Inr c"
    and distinct: "atom_to_be_functionalized_xyz c \<noteq> bonded_atom_xyz c"
  obtains hx hy hz bx "by" bz n ux uy uz where
    "atom_to_be_functionalized_xyz c = (Fin hx, Fin hy, Fin hz)"
    "bonded_atom_xyz c = (Fin bx, Fin by, Fin bz)"
    "n = sqrt ((hx - bx) * (hx - bx) + (hy - by) * (hy - by) + (hz - bz) * (hz - bz))"
    "0 < n"
    "distance (atom_to_be_functionalized_xyz c) (bonded_atom_xyz c) = Fin n"
    "ux = (hx - bx) / n" "uy = (hy - by) / n" "uz = (hz - bz) / n"
    "bond_length_norm c = (Fin ux, Fin uy, Fin uz)"
    "ux * ux + uy * uy + uz * uz = 1"
    "equilateral_triangle c =
       ((Fin 0, Fin (1 / sqrt 3), Fin 0),
        (Fin (- (1 / 2)), Fin (- (1 / sqrt 3 / 2)), Fin 0),
        (Fin (1 / 2), Fin (- (1 / sqrt 3 / 2)), Fin 0))"
proof -
  from init obtain l0 hx hy hz l1 bx "by" bz rest where
    c: "c = \<lparr> data_matrix = dm,
           atom_to_be_functionalized_index = 0,
           atom_to_be_functionalized_xyz = (Fin hx, Fin hy, Fin hz),
           bonded_atom_index = 1,
           bonded_atom_xyz = (Fin bx, Fin by, Fin bz),
           bond_length = (Fin (hx - bx), Fin (hy - by), Fin (hz - bz)),
           bond_length_norm = vec_div (Fin (hx - bx), Fin (hy - by), Fin (hz - bz))
             (Fin (sqrt ((hx - bx) * (hx - bx) + (hy - by) * (hy - by) + (hz - bz) * (hz - bz)))),
           equilateral_triangle =
             ((Fin 0, Fin (1 / sqrt 3), Fin 0),
              (Fin (- (1 / 2)), Fin (- (1 / sqrt 3 / 2)), Fin 0),
              (Fin (1 / 2), Fin (- (1 / sqrt 3 / 2)), Fin 0)) \<rparr>"
    by (rule Complex_init_Inr)
  define n where "n = sqrt ((hx - bx) * (hx - bx) + (hy - by) * (hy - by) + (hz - bz) * (hz - bz))"
  from distinct have "\<not> (hx - bx = 0 \<and> hy - by = 0 \<and> hz - bz = 0)"
    by (auto simp: c)
  then have ne: "(hx - bx) * (hx - bx) + (hy - by) * (hy - by) + (hz - bz) * (hz - bz) \<noteq> 0"
    by (simp only: sumsq_zero_iff not_False_eq_True)
  have ge: "0 \<le> (hx - bx) * (hx - bx) + (hy - by) * (hy - by) + (hz - bz) * (hz - bz)"
    by simp
  from ne [THEN not_sym] ge
  have "0 < (hx - bx) * (hx - bx) + (hy - by) * (hy - by) + (hz - bz) * (hz - bz)"
    by (rule order.not_eq_order_implies_strict)
  then have pos: "0 < n"
    unfolding n_def by (simp only: real_sqrt_gt_0_iff)
  have unit: "(hx - bx) / n * ((hx - bx) / n) + (hy - by) / n * ((hy - by) / n)
      + (hz - bz) / n * ((hz - bz) / n) = 1"
    using n_def pos by (rule unit_vector)
  show ?thesis
  proof (rule that [of hx hy hz bx "by" bz n "(hx - bx) / n" "(hy - by) / n" "(hz - bz) / n"])
    show "bond_length_norm c = (Fin ((hx - bx) / n), Fin ((hy - by) / n), Fin ((hz - bz) / n))"
      using pos by (simp add: c n_def [symmetric])
    show "distance (atom_to_be_functionalized_xyz c) (bonded_atom_xyz c) = Fin n"
      by (simp add: c distance_fin n_def)
    show "0 < n" by (rule pos)
    show "n = sqrt ((hx - bx) * (hx - bx) + (hy - by) * (hy - by) + (hz - bz) * (hz - bz))"
      by (rule n_def)
    show "(hx - bx) / n * ((hx - bx) / n) + (hy - by) / n * ((hy - by) / n)
      + (hz - bz) / n * ((hz - bz) / n) = 1"
      by (rule unit)
  qed (simp_all add: c)
qed


lemma not_antiparallel:
  fixes ux uy uz :: real
  assumes unit: "ux * ux + uy * uy + uz * uz = 1"
    and npar: "(Fin ux, Fin uy, Fin uz) \<noteq> (Fin 0, Fin 0, Fin (- 1))"
  shows "1 + uz \<noteq> 0"
proof
  assume "1 + uz = 0"
  then have uz: "uz = - 1" by simp
  with unit have "ux * ux + uy * uy = 0" by simp
  then have "ux = 0 \<and> uy = 0"
    by (simp add: add_nonneg_eq_0_iff)
  with uz npar show False by simp
qed

lemma fresh_gsv:
  assumes init: "Complex_init dm = Inr c"
    and distinct: "atom_to_be_functionalized_xyz c \<noteq> bonded_atom_xyz c"
    and npar: "bond_length_norm c \<noteq> (Fin 0, Fin 0, Fin (- 1))"
  obtains hx hy hz bx "by" bz n ux uy uz a B c' cen where
    "atom_to_be_functionalized_xyz c = (Fin hx, Fin hy, Fin hz)"
    "bonded_atom_xyz c = (Fin bx, Fin by, Fin bz)"
    "distance (atom_to_be_functionalized_xyz c) (bonded_atom_xyz c) = Fin n"
    "0 < n"
    "bond_length_norm c = (Fin ux, Fin uy, Fin uz)"
    "ux * ux + uy * uy + uz * uz = 1"
    "a * (1 + uz) = 1"
    "n = sqrt ((hx - bx) * (hx - bx) + (hy - by) * (hy - by) + (hz - bz) * (hz - bz))"
    "ux = (hx - bx) / n" "uy = (hy - by) / n" "uz = (hz - bz) / n"
    "B = n * (2 * sqrt (2 / 3))"
    "cen = (hx + B / 3 * ux, hy + B / 3 * uy, hz + B / 3 * uz)"
    "find_centroid c = (c', (Fin (hx + B / 3 * ux), Fin (hy + B / 3 * uy), Fin (hz + B / 3 * uz)))"
    "generate_substituent_vectors c =
       (c', place cen (rot_xy ux uy a 0 (B * (1 / sqrt 3))),
            place cen (rot_xy ux uy a (- (B / 2)) (- (B * (1 / sqrt 3) / 2))),
            place cen (rot_xy ux uy a (B / 2) (- (B * (1 / sqrt 3) / 2))))"
proof -
  from init distinct obtain hx hy hz bx "by" bz n ux uy uz where
    h: "atom_to_be_functionalized_xyz c = (Fin hx, Fin hy, Fin hz)" and
    b: "bonded_atom_xyz c = (Fin bx, Fin by, Fin bz)" and
    pos: "0 < n" and
    d: "distance (atom_to_be_functionalized_xyz c) (bonded_atom_xyz c) = Fin n" and
    n: "n = sqrt ((hx - bx) * (hx - bx) + (hy - by) * (hy - by) + (hz - bz) * (hz - bz))" and
    ux: "ux = (hx - bx) / n" and uy: "uy = (hy - by) / n" and uz: "uz = (hz - bz) / n" and
    u: "bond_length_norm c = (Fin ux, Fin uy, Fin uz)" and
    unit: "ux * ux + uy * uy + uz * uz = 1" and
    tri: "equilateral_triangle c =
       ((Fin 0, Fin (1 / sqrt 3), Fin 0),
        (Fin (- (1 / 2)), Fin (- (1 / sqrt 3 / 2)), Fin 0),
        (Fin (1 / 2), Fin (- (1 / sqrt 3 / 2)), Fin 0))"
    by (rule fresh_object)
  define B where "B = n * (2 * sqrt (2 / 3))"
  define a where "a = 1 / (1 + uz)"
  define c' where "c' = c \<lparr> equilateral_triangle :=
     ((Fin 0, Fin (B * (1 / sqrt 3)), Fin 0),
      (Fin (- (B / 2)), Fin (- (B * (1 / sqrt 3) / 2)), Fin 0),
      (Fin (B / 2), Fin (- (B * (1 / sqrt 3) / 2)), Fin 0)) \<rparr>"
  from unit npar have nz: "1 + uz \<noteq> 0"
    unfolding u by (rule not_antiparallel)
  then have a: "a * (1 + uz) = 1" by (simp add: a_def)
  have fc: "find_centroid c =
      (c', (Fin (hx + B / 3 * ux), Fin (hy + B / 3 * uy), Fin (hz + B / 3 * uz)))"
    using d by (simp add: find_centroid_def Let_def h b u tri c'_def B_def)
  have "generate_substituent_vectors c =
       (c', place (hx + B / 3 * ux, hy + B / 3 * uy, hz + B / 3 * uz)
              (rot_xy ux uy a 0 (B * (1 / sqrt 3))),
            place (hx + B / 3 * ux, hy + B / 3 * uy, hz + B / 3 * uz)
              (rot_xy ux uy a (- (B / 2)) (- (B * (1 / sqrt 3) / 2))),
            place (hx + B / 3 * ux, hy + B / 3 * uy, hz + B / 3 * uz)
              (rot_xy ux uy a (B / 2) (- (B * (1 / sqrt 3) / 2))))"
    by (rule gsv_fin [OF fc _ _ a]) (simp_all add: c'_def u)
  with h b d pos u unit a B_def fc n ux uy uz show ?thesis
    by (intro that [of hx hy hz bx "by" bz n ux uy uz a B
          "(hx + B / 3 * ux, hy + B / 3 * uy, hz + B / 3 * uz)" c']) simp_all
qed


lemma template_edge:
  fixes B :: real
  assumes "0 \<le> B"
  shows "sqrt ((0 - - (B / 2)) * (0 - - (B / 2)) +
           (B * (1 / sqrt 3) - - (B * (1 / sqrt 3) / 2)) * (B * (1 / sqrt 3) - - (B * (1 / sqrt 3) / 2))) = B"
    and "sqrt ((0 - B / 2) * (0 - B / 2) +
           (B * (1 / sqrt 3) - - (B * (1 / sqrt 3) / 2)) * (B * (1 / sqrt 3) - - (B * (1 / sqrt 3) / 2))) = B"
    and "sqrt ((- (B / 2) - B / 2) * (- (B / 2) - B / 2) +
           (- (B * (1 / sqrt 3) / 2) - - (B * (1 / sqrt 3) / 2)) * (- (B * (1 / sqrt 3) / 2) - - (B * (1 / sqrt 3) / 2))) = B"
proof -
  define r :: real where "r = 1 / sqrt 3"
  have rr: "r * r = 1 / 3" by (simp add: r_def)
  have e1: "(0 - - (B / 2)) * (0 - - (B / 2)) +
      (B * r - - (B * r / 2)) * (B * r - - (B * r / 2)) = B * B"
    using rr by algebra
  have e2: "(0 - B / 2) * (0 - B / 2) +
      (B * r - - (B * r / 2)) * (B * r - - (B * r / 2)) = B * B"
    using rr by algebra
  have e3: "(- (B / 2) - B / 2) * (- (B / 2) - B / 2) +
      (- (B * r / 2) - - (B * r / 2)) * (- (B * r / 2) - - (B * r / 2)) = B * B"
    by algebra
  have s: "sqrt (B * B) = B" using assms by simp
  show "sqrt ((0 - - (B / 2)) * (0 - - (B / 2)) +
           (B * (1 / sqrt 3) - - (B * (1 / sqrt 3) / 2)) * (B * (1 / sqrt 3) - - (B * (1 / sqrt 3) / 2))) = B"
    unfolding r_def [symmetric] e1 by (rule s)
  show "sqrt ((0 - B / 2) * (0 - B / 2) +
           (B * (1 / sqrt 3) - - (B * (1 / sqrt 3) / 2)) * (B * (1 / sqrt 3) - - (B * (1 / sqrt 3) / 2))) = B"
    unfolding r_def [symmetric] e2 by (rule s)
  show "sqrt ((- (B / 2) - B / 2) * (- (B / 2) - B / 2) +
           (- (B * (1 / sqrt 3) / 2) - - (B * (1 / sqrt 3) / 2)) * (- (B * (1 / sqrt 3) / 2) - - (B * (1 / sqrt 3) / 2))) = B"
    unfolding r_def [symmetric] e3 by (rule s)
qed

lemma template_radius:
  fixes B :: real
  assumes "0 \<le> B"
  shows "sqrt (B / 3 * (B / 3) + (0 * 0 + B * (1 / sqrt 3) * (B * (1 / sqrt 3)))) = 2 / 3 * B"
    and "sqrt (B / 3 * (B / 3) + (- (B / 2) * - (B / 2) + - (B * (1 / sqrt 3) / 2) * - (B * (1 / sqrt 3) / 2))) = 2 / 3 * B"
    and "sqrt (B / 3 * (B / 3) + (B / 2 * (B / 2) + - (B * (1 / sqrt 3) / 2) * - (B * (1 / sqrt 3) / 2))) = 2 / 3 * B"
proof -
  define r :: real where "r = 1 / sqrt 3"
  have rr: "r * r = 1 / 3" by (simp add: r_def)
  have m1: "B * r * (B * r) = B * B * (r * r)" by (simp only: mult_ac)
  have m2: "- (B * r / 2) * - (B * r / 2) = B * B * (r * r) / 4" by (simp add: mult_ac)
  have e1: "B / 3 * (B / 3) + (0 * 0 + B * r * (B * r)) = (2 / 3 * B) * (2 / 3 * B)"
    unfolding m1 rr by (simp add: field_simps)
  have e2: "B / 3 * (B / 3) + (- (B / 2) * - (B / 2) + - (B * r / 2) * - (B * r / 2))
      = (2 / 3 * B) * (2 / 3 * B)"
    unfolding m2 rr by (simp add: field_simps)
  have e3: "B / 3 * (B / 3) + (B / 2 * (B / 2) + - (B * r / 2) * - (B * r / 2))
      = (2 / 3 * B) * (2 / 3 * B)"
    unfolding m2 rr by (simp add: field_simps)
  have "0 \<le> 2 / 3 * B" using assms by simp
  then have s: "sqrt ((2 / 3 * B) * (2 / 3 * B)) = 2 / 3 * B"
    by (simp only: real_sqrt_abs2 abs_of_nonneg)
  show "sqrt (B / 3 * (B / 3) + (0 * 0 + B * (1 / sqrt 3) * (B * (1 / sqrt 3)))) = 2 / 3 * B"
    unfolding r_def [symmetric] e1 by (rule s)
  show "sqrt (B / 3 * (B / 3) + (- (B / 2) * - (B / 2) + - (B * (1 / sqrt 3) / 2) * - (B * (1 / sqrt 3) / 2))) = 2 / 3 * B"
    unfolding r_def [symmetric] e2 by (rule s)
  show "sqrt (B / 3 * (B / 3) + (B / 2 * (B / 2) + - (B * (1 / sqrt 3) / 2) * - (B * (1 / sqrt 3) / 2))) = 2 / 3 * B"
    unfolding r_def [symmetric] e3 by (rule s)
qed

section \<open>Further facts used by the claims\<close>

lemma scale_neq_one: "2 * sqrt (2 / 3) \<noteq> (1::real)" "sqrt (2 / 3) * 2 \<noteq> (1::real)"
proof -
  show "2 * sqrt (2 / 3) \<noteq> (1::real)"
  proof
    assume "2 * sqrt (2 / 3) = (1::real)"
    then have "(2 * sqrt (2 / 3)) * (2 * sqrt (2 / 3)) = (1::real)" by simp
    moreover have "(2 * sqrt (2 / 3)) * (2 * sqrt (2 / 3)) = (8 / 3 :: real)" by simp
    ultimately show False by simp
  qed
  then show "sqrt (2 / 3) * 2 \<noteq> (1::real)" by (simp add: mult.commute)
qed

lemma scale_neq_minus_one: "2 * sqrt (2 / 3) \<noteq> (- 1::real)"
proof -
  have "(0::real) \<le> 2 * sqrt (2 / 3)" by simp
  then show ?thesis by linarith
qed

lemma mean3_place:
  "mean3 (place (cx, cy, cz) (rot_xy ux uy a 0 Q))
         (place (cx, cy, cz) (rot_xy ux uy a (- P) (- (Q / 2))))
         (place (cx, cy, cz) (rot_xy ux uy a P (- (Q / 2))))
   = (Fin cx, Fin cy, Fin cz)"
proof -
  have x: "(cx + (0 - ux * (ux * 0 + uy * Q) * a)
          + (cx + (- P - ux * (ux * - P + uy * - (Q / 2)) * a))
          + (cx + (P - ux * (ux * P + uy * - (Q / 2)) * a))) / 3 = cx"
    by (simp add: algebra_simps)
  have y: "(cy + (Q - uy * (ux * 0 + uy * Q) * a)
          + (cy + (- (Q / 2) - uy * (ux * - P + uy * - (Q / 2)) * a))
          + (cy + (- (Q / 2) - uy * (ux * P + uy * - (Q / 2)) * a))) / 3 = cy"
    by (simp add: algebra_simps)
  have z: "(cz + - (ux * 0 + uy * Q)
          + (cz + - (ux * - P + uy * - (Q / 2)))
          + (cz + - (ux * P + uy * - (Q / 2)))) / 3 = cz"
    by (simp add: algebra_simps)
  show ?thesis
    unfolding mean3_def rot_xy_def place.simps vec_add.simps vec_div.simps np_float_arith
      np_float_div x y z
    by simp
qed

lemma fresh_distances:
  assumes init: "Complex_init dm = Inr c"
    and distinct: "atom_to_be_functionalized_xyz c \<noteq> bonded_atom_xyz c"
    and npar: "bond_length_norm c \<noteq> (Fin 0, Fin 0, Fin (- 1))"
    and b: "distance (atom_to_be_functionalized_xyz c) (bonded_atom_xyz c) = Fin b"
    and gsv: "generate_substituent_vectors c = (c', s1, s2, s3)"
  shows "0 < b
    \<and> distance s1 s2 = Fin (2 * sqrt (2 / 3) * b)
    \<and> distance s1 s3 = Fin (2 * sqrt (2 / 3) * b)
    \<and> distance s2 s3 = Fin (2 * sqrt (2 / 3) * b)
    \<and> distance (atom_to_be_functionalized_xyz c) s1 = Fin (4 / 3 * sqrt (2 / 3) * b)
    \<and> distance (atom_to_be_functionalized_xyz c) s2 = Fin (4 / 3 * sqrt (2 / 3) * b)
    \<and> distance (atom_to_be_functionalized_xyz c) s3 = Fin (4 / 3 * sqrt (2 / 3) * b)"
proof -
  from init distinct npar obtain hx hy hz bx "by" bz n ux uy uz a B c'' cen where
    h: "atom_to_be_functionalized_xyz c = (Fin hx, Fin hy, Fin hz)" and
    d: "distance (atom_to_be_functionalized_xyz c) (bonded_atom_xyz c) = Fin n" and
    pos: "0 < n" and
    unit: "ux * ux + uy * uy + uz * uz = 1" and
    a: "a * (1 + uz) = 1" and
    B: "B = n * (2 * sqrt (2 / 3))" and
    cen: "cen = (hx + B / 3 * ux, hy + B / 3 * uy, hz + B / 3 * uz)" and
    g: "generate_substituent_vectors c =
       (c'', place cen (rot_xy ux uy a 0 (B * (1 / sqrt 3))),
            place cen (rot_xy ux uy a (- (B / 2)) (- (B * (1 / sqrt 3) / 2))),
            place cen (rot_xy ux uy a (B / 2) (- (B * (1 / sqrt 3) / 2))))"
    by (rule fresh_gsv)
  from b d have n: "n = b" by simp
  from pos have B0: "0 \<le> B" unfolding B by simp
  have Bb: "B = 2 * sqrt (2 / 3) * b" unfolding B n by simp
  have Bb2: "2 / 3 * B = 4 / 3 * sqrt (2 / 3) * b" unfolding Bb by simp
  from g gsv have s1: "s1 = place cen (rot_xy ux uy a 0 (B * (1 / sqrt 3)))"
    and s2: "s2 = place cen (rot_xy ux uy a (- (B / 2)) (- (B * (1 / sqrt 3) / 2)))"
    and s3: "s3 = place cen (rot_xy ux uy a (B / 2) (- (B * (1 / sqrt 3) / 2)))"
    by simp_all
  have "distance s1 s2 = Fin B"
    unfolding s1 s2 distance_place_pair [OF a unit] template_edge [OF B0] ..
  moreover have "distance s1 s3 = Fin B"
    unfolding s1 s3 distance_place_pair [OF a unit] template_edge [OF B0] ..
  moreover have "distance s2 s3 = Fin B"
    unfolding s2 s3 distance_place_pair [OF a unit] template_edge [OF B0] ..
  moreover have "distance (atom_to_be_functionalized_xyz c) s1 = Fin (2 / 3 * B)"
    unfolding h s1 cen distance_heavy_place [OF a unit] template_radius [OF B0] ..
  moreover have "distance (atom_to_be_functionalized_xyz c) s2 = Fin (2 / 3 * B)"
    unfolding h s2 cen distance_heavy_place [OF a unit] template_radius [OF B0] ..
  moreover have "distance (atom_to_be_functionalized_xyz c) s3 = Fin (2 / 3 * B)"
    unfolding h s3 cen distance_heavy_place [OF a unit] template_radius [OF B0] ..
  ultimately show ?thesis
    using pos unfolding Bb2 unfolding Bb n by simp
qed

lemma fresh_mean:
  assumes init: "Complex_init dm = Inr c"
    and distinct: "atom_to_be_functionalized_xyz c \<noteq> bonded_atom_xyz c"
    and npar: "bond_length_norm c \<noteq> (Fin 0, Fin 0, Fin (- 1))"
    and fc: "find_centroid c = (c1, centroid)"
    and gsv: "generate_substituent_vectors c = (c', s1, s2, s3)"
  shows "mean3 s1 s2 s3 = centroid \<and> all_finite centroid"
proof -
  from init distinct npar obtain hx hy hz ux uy uz a B c'' cen where
    cen: "cen = (hx + B / 3 * ux, hy + B / 3 * uy, hz + B / 3 * uz)" and
    f: "find_centroid c = (c'', (Fin (hx + B / 3 * ux), Fin (hy + B / 3 * uy), Fin (hz + B / 3 * uz)))" and
    g: "generate_substituent_vectors c =
       (c'', place cen (rot_xy ux uy a 0 (B * (1 / sqrt 3))),
            place cen (rot_xy ux uy a (- (B / 2)) (- (B * (1 / sqrt 3) / 2))),
            place cen (rot_xy ux uy a (B / 2) (- (B * (1 / sqrt 3) / 2))))"
    by (rule fresh_gsv)
  from f fc have c: "centroid = (Fin (hx + B / 3 * ux), Fin (hy + B / 3 * uy), Fin (hz + B / 3 * uz))"
    by simp
  from g gsv have s: "s1 = place cen (rot_xy ux uy a 0 (B * (1 / sqrt 3)))"
    "s2 = place cen (rot_xy ux uy a (- (B / 2)) (- (B * (1 / sqrt 3) / 2)))"
    "s3 = place cen (rot_xy ux uy a (B / 2) (- (B * (1 / sqrt 3) / 2)))"
    by simp_all
  have "mean3 s1 s2 s3 = centroid"
    unfolding s c cen by (rule mean3_place)
  then show ?thesis by (simp add: c isfinite_def)
qed

lemma float_safe_fresh:
  assumes init: "Complex_init ((l0, hx, hy, hz) # (l1, bx, by, bz) # rest) = Inr c"
    and b: "distance (atom_to_be_functionalized_xyz c) (bonded_atom_xyz c) = Fin b"
    and safe: "float_safe (hx, hy, hz) (bx, by, bz) b"
  shows "0 < b"
    and "atom_to_be_functionalized_xyz c \<noteq> bonded_atom_xyz c"
    and "bond_length_norm c \<noteq> (Fin 0, Fin 0, Fin (- 1))"
proof -
  from safe have lo: "1 / 10 ^ 100 \<le> b" and away: "- (999 / 1000) * b \<le> hz - bz"
    by simp_all
  have "(0::real) < 1 / 10 ^ 100" by simp
  with lo show pos: "0 < b" by linarith
  have hc: "atom_to_be_functionalized_xyz c = (Fin hx, Fin hy, Fin hz)"
    and bc: "bonded_atom_xyz c = (Fin bx, Fin by, Fin bz)"
    using init by (auto simp: Complex_init_def loc_xyz_def Let_def)
  show distinct: "atom_to_be_functionalized_xyz c \<noteq> bonded_atom_xyz c"
  proof
    assume "atom_to_be_functionalized_xyz c = bonded_atom_xyz c"
    then have "distance (atom_to_be_functionalized_xyz c) (bonded_atom_xyz c) = Fin 0"
      by (simp add: bc distance_fin)
    with b pos show False by simp
  qed
  from init distinct obtain hx0 hy0 hz0 bx0 by0 bz0 n ux uy uz where
    h0: "atom_to_be_functionalized_xyz c = (Fin hx0, Fin hy0, Fin hz0)" and
    b0: "bonded_atom_xyz c = (Fin bx0, Fin by0, Fin bz0)" and
    d: "distance (atom_to_be_functionalized_xyz c) (bonded_atom_xyz c) = Fin n" and
    u: "bond_length_norm c = (Fin ux, Fin uy, Fin uz)" and
    uz: "uz = (hz0 - bz0) / n"
    by (rule fresh_object)
  from h0 b0 hc bc have e: "hz0 = hz" "bz0 = bz" by simp_all
  from b d have n: "n = b" by simp
  have "- (999 / 1000) \<le> uz"
    unfolding uz e n using away pos by (simp add: field_simps)
  then have "uz \<noteq> - 1" by linarith
  then show "bond_length_norm c \<noteq> (Fin 0, Fin 0, Fin (- 1))"
    by (simp add: u)
qed

lemma sqrt_two_thirds_bounds: "8145 / 10000 \<le> sqrt (2 / 3 :: real)" "sqrt (2 / 3 :: real) \<le> 8175 / 10000"
proof -
  have "(8145 / 10000 :: real)\<^sup>2 \<le> 2 / 3" by (simp add: power2_eq_square)
  then show "8145 / 10000 \<le> sqrt (2 / 3 :: real)" by (rule real_le_rsqrt)
  show "sqrt (2 / 3 :: real) \<le> 8175 / 10000"
    by (rule real_le_lsqrt) (simp_all add: power2_eq_square)
qed

lemma rotation_isometry:
  assumes "is_rotation ((q00, q01, q02), (q10, q11, q12), (q20, q21, q22))"
  shows "(q00 * x + q01 * y + q02 * z) * (q00 * x + q01 * y + q02 * z)
       + (q10 * x + q11 * y + q12 * z) * (q10 * x + q11 * y + q12 * z)
       + (q20 * x + q21 * y + q22 * z) * (q20 * x + q21 * y + q22 * z)
       = x * x + y * y + z * z"
proof -
  from assms have
    c0: "q00 * q00 + q10 * q10 + q20 * q20 = 1" and
    c1: "q01 * q01 + q11 * q11 + q21 * q21 = 1" and
    c2: "q02 * q02 + q12 * q12 + q22 * q22 = 1" and
    c01: "q00 * q01 + q10 * q11 + q20 * q21 = 0" and
    c02: "q00 * q02 + q10 * q12 + q20 * q22 = 0" and
    c12: "q01 * q02 + q11 * q12 + q21 * q22 = 0"
    by simp_all
  have "(q00 * x + q01 * y + q02 * z) * (q00 * x + q01 * y + q02 * z)
       + (q10 * x + q11 * y + q12 * z) * (q10 * x + q11 * y + q12 * z)
       + (q20 * x + q21 * y + q22 * z) * (q20 * x + q21 * y + q22 * z)
     = (q00 * q00 + q10 * q10 + q20 * q20) * (x * x)
       + (q01 * q01 + q11 * q11 + q21 * q21) * (y * y)
       + (q02 * q02 + q12 * q12 + q22 * q22) * (z * z)
       + 2 * (q00 * q01 + q10 * q11 + q20 * q21) * (x * y)
       + 2 * (q00 * q02 + q10 * q12 + q20 * q22) * (x * z)
       + 2 * (q01 * q02 + q11 * q12 + q21 * q22) * (y * z)"
    by (simp add: algebra_simps)
  also have "\<dots> = x * x + y * y + z * z"
    unfolding c0 c1 c2 c01 c02 c12 by simp
  finally show ?thesis .
qed

lemma rotate_fin:
  "rotate ((q00, q01, q02), (q10, q11, q12), (q20, q21, q22)) (Fin x, Fin y, Fin z) =
     (Fin (q00 * x + q01 * y + q02 * z), Fin (q10 * x + q11 * y + q12 * z),
      Fin (q20 * x + q21 * y + q22 * z))"
  by simp

lemma rotation_isometry_diff:
  assumes "is_rotation ((q00, q01, q02), (q10, q11, q12), (q20, q21, q22))"
  shows "(q00 * hx + q01 * hy + q02 * hz - (q00 * bx + q01 * by + q02 * bz)) *
         (q00 * hx + q01 * hy + q02 * hz - (q00 * bx + q01 * by + q02 * bz))
       + (q10 * hx + q11 * hy + q12 * hz - (q10 * bx + q11 * by + q12 * bz)) *
         (q10 * hx + q11 * hy + q12 * hz - (q10 * bx + q11 * by + q12 * bz))
       + (q20 * hx + q21 * hy + q22 * hz - (q20 * bx + q21 * by + q22 * bz)) *
         (q20 * hx + q21 * hy + q22 * hz - (q20 * bx + q21 * by + q22 * bz))
       = (hx - bx) * (hx - bx) + (hy - by) * (hy - by) + (hz - bz) * (hz - bz)"
proof -
  have d: "q00 * hx + q01 * hy + q02 * hz - (q00 * bx + q01 * by + q02 * bz)
         = q00 * (hx - bx) + q01 * (hy - by) + q02 * (hz - bz)"
    "q10 * hx + q11 * hy + q12 * hz - (q10 * bx + q11 * by + q12 * bz)
         = q10 * (hx - bx) + q11 * (hy - by) + q12 * (hz - bz)"
    "q20 * hx + q21 * hy + q22 * hz - (q20 * bx + q21 * by + q22 * bz)
         = q20 * (hx - bx) + q21 * (hy - by) + q22 * (hz - bz)"
    by (simp_all add: algebra_simps)
  show ?thesis unfolding d by (rule rotation_isometry [OF assms])
qed

lemma rotated_objects:
  assumes rot: "is_rotation ((q00, q01, q02), (q10, q11, q12), (q20, q21, q22))"
    and init: "Complex_init ((l0, hx, hy, hz) # (l1, bx, by, bz) # rest) = Inr c"
    and initq: "Complex_init
        ((l0', rotate_point ((q00, q01, q02), (q10, q11, q12), (q20, q21, q22)) (hx, hy, hz))
         # (l1', rotate_point ((q00, q01, q02), (q10, q11, q12), (q20, q21, q22)) (bx, by, bz))
         # rest') = Inr cq"
  shows "atom_to_be_functionalized_xyz c = (Fin hx, Fin hy, Fin hz)"
    and "bonded_atom_xyz c = (Fin bx, Fin by, Fin bz)"
    and "atom_to_be_functionalized_xyz cq =
           (Fin (q00 * hx + q01 * hy + q02 * hz), Fin (q10 * hx + q11 * hy + q12 * hz),
            Fin (q20 * hx + q21 * hy + q22 * hz))"
    and "bonded_atom_xyz cq =
           (Fin (q00 * bx + q01 * by + q02 * bz), Fin (q10 * bx + q11 * by + q12 * bz),
            Fin (q20 * bx + q21 * by + q22 * bz))"
    and "distance (atom_to_be_functionalized_xyz cq) (bonded_atom_xyz cq)
       = distance (atom_to_be_functionalized_xyz c) (bonded_atom_xyz c)"
proof -
  show hc: "atom_to_be_functionalized_xyz c = (Fin hx, Fin hy, Fin hz)"
    and bc: "bonded_atom_xyz c = (Fin bx, Fin by, Fin bz)"
    using init by (auto simp: Complex_init_def loc_xyz_def Let_def)
  show hq: "atom_to_be_functionalized_xyz cq =
           (Fin (q00 * hx + q01 * hy + q02 * hz), Fin (q10 * hx + q11 * hy + q12 * hz),
            Fin (q20 * hx + q21 * hy + q22 * hz))"
    and bq: "bonded_atom_xyz cq =
           (Fin (q00 * bx + q01 * by + q02 * bz), Fin (q10 * bx + q11 * by + q12 * bz),
            Fin (q20 * bx + q21 * by + q22 * bz))"
    using initq by (auto simp: Complex_init_def loc_xyz_def Let_def)
  show "distance (atom_to_be_functionalized_xyz cq) (bonded_atom_xyz cq)
       = distance (atom_to_be_functionalized_xyz c) (bonded_atom_xyz c)"
    unfolding hc bc hq bq distance_fin rotation_isometry_diff [OF rot] ..
qed


lemma rotated_centroid:
  assumes rot: "is_rotation ((q00, q01, q02), (q10, q11, q12), (q20, q21, q22))"
    and init: "Complex_init ((l0, hx, hy, hz) # (l1, bx, by, bz) # rest) = Inr c"
    and initq: "Complex_init
        ((l0', rotate_point ((q00, q01, q02), (q10, q11, q12), (q20, q21, q22)) (hx, hy, hz))
         # (l1', rotate_point ((q00, q01, q02), (q10, q11, q12), (q20, q21, q22)) (bx, by, bz))
         # rest') = Inr cq"
    and distinct: "atom_to_be_functionalized_xyz c \<noteq> bonded_atom_xyz c"
    and distinctq: "atom_to_be_functionalized_xyz cq \<noteq> bonded_atom_xyz cq"
  shows "snd (find_centroid cq) =
     rotate ((q00, q01, q02), (q10, q11, q12), (q20, q21, q22)) (snd (find_centroid c))"
proof -
  note f = rotated_objects [OF rot init initq]
  from init distinct obtain hx0 hy0 hz0 bx0 by0 bz0 n ux uy uz where
    h0: "atom_to_be_functionalized_xyz c = (Fin hx0, Fin hy0, Fin hz0)" and
    b0: "bonded_atom_xyz c = (Fin bx0, Fin by0, Fin bz0)" and
    pos: "0 < n" and
    d: "distance (atom_to_be_functionalized_xyz c) (bonded_atom_xyz c) = Fin n" and
    u: "bond_length_norm c = (Fin ux, Fin uy, Fin uz)" and
    ux0: "ux = (hx0 - bx0) / n" and uy0: "uy = (hy0 - by0) / n" and uz0: "uz = (hz0 - bz0) / n"
    by (rule fresh_object)
  from h0 b0 f(1,2) have e0: "hx0 = hx" "hy0 = hy" "hz0 = hz" "bx0 = bx" "by0 = by" "bz0 = bz"
    by simp_all
  note ux = ux0 [unfolded e0] and uy = uy0 [unfolded e0] and uz = uz0 [unfolded e0]
  from initq distinctq obtain hx1 hy1 hz1 bx1 by1 bz1 m vx vy vz where
    h1: "atom_to_be_functionalized_xyz cq = (Fin hx1, Fin hy1, Fin hz1)" and
    b1: "bonded_atom_xyz cq = (Fin bx1, Fin by1, Fin bz1)" and
    dq: "distance (atom_to_be_functionalized_xyz cq) (bonded_atom_xyz cq) = Fin m" and
    v: "bond_length_norm cq = (Fin vx, Fin vy, Fin vz)" and
    vx1: "vx = (hx1 - bx1) / m" and vy1: "vy = (hy1 - by1) / m" and vz1: "vz = (hz1 - bz1) / m"
    by (rule fresh_object)
  from h1 b1 f(3,4) have e1:
    "hx1 = q00 * hx + q01 * hy + q02 * hz" "hy1 = q10 * hx + q11 * hy + q12 * hz"
    "hz1 = q20 * hx + q21 * hy + q22 * hz"
    "bx1 = q00 * bx + q01 * by + q02 * bz" "by1 = q10 * bx + q11 * by + q12 * bz"
    "bz1 = q20 * bx + q21 * by + q22 * bz"
    by simp_all
  note vx = vx1 [unfolded e1] and vy = vy1 [unfolded e1] and vz = vz1 [unfolded e1]
  from d dq f(5) have m: "m = n" by simp
  have vx': "vx = q00 * ux + q01 * uy + q02 * uz"
    unfolding vx ux uy uz m by (simp add: algebra_simps add_divide_distrib diff_divide_distrib)
  have vy': "vy = q10 * ux + q11 * uy + q12 * uz"
    unfolding vy ux uy uz m by (simp add: algebra_simps add_divide_distrib diff_divide_distrib)
  have vz': "vz = q20 * ux + q21 * uy + q22 * uz"
    unfolding vz ux uy uz m by (simp add: algebra_simps add_divide_distrib diff_divide_distrib)
  have fc: "snd (find_centroid c) =
      (Fin (hx + n * (2 * sqrt (2 / 3)) / 3 * ux), Fin (hy + n * (2 * sqrt (2 / 3)) / 3 * uy),
       Fin (hz + n * (2 * sqrt (2 / 3)) / 3 * uz))"
    using d by (simp add: find_centroid_def Let_def f(1) u)
  have fq: "snd (find_centroid cq) =
      (Fin (q00 * hx + q01 * hy + q02 * hz + n * (2 * sqrt (2 / 3)) / 3 * vx),
       Fin (q10 * hx + q11 * hy + q12 * hz + n * (2 * sqrt (2 / 3)) / 3 * vy),
       Fin (q20 * hx + q21 * hy + q22 * hz + n * (2 * sqrt (2 / 3)) / 3 * vz))"
    using dq by (simp add: find_centroid_def Let_def f(3) v m)
  show ?thesis
    unfolding fc fq rotate_fin vx' vy' vz' by (simp add: algebra_simps)
qed

lemma close_vec_eq:
  "v = (Fin x, Fin y, Fin z) \<Longrightarrow> w = v \<Longrightarrow> 0 \<le> tol \<Longrightarrow> close_vec v w tol"
  by (simp add: close_np_def within_tolerance_def)

lemma all_finiteE:
  assumes "all_finite v"
  obtains x y z where "v = (Fin x, Fin y, Fin z)"
proof -
  obtain a0 a1 a2 where v: "v = (a0, a1, a2)" by (cases v) auto
  from assms obtain x y z where "a0 = Fin x" "a1 = Fin y" "a2 = Fin z"
    unfolding v by (cases a0; cases a1; cases a2) (simp_all add: isfinite_def)
  with v that show ?thesis by simp
qed

lemma universal_newlines_id: "CR \<notin> set s \<Longrightarrow> universal_newlines s = s"
  by (induction s rule: universal_newlines.induct) auto

lemma concat_split_keepends: "concat (split_keepends s) = s"
  by (induction s) (auto split: list.splits)

lemma split_keepends_last:
  "\<exists>ls l. split_keepends (t @ [LF]) = ls @ [l @ [LF]] \<and> LF \<notin> set l"
proof (induction t)
  case Nil
  show ?case by simp
next
  case (Cons c t)
  then obtain ls l where sp: "split_keepends (t @ [LF]) = ls @ [l @ [LF]]" and l: "LF \<notin> set l"
    by blast
  show ?case
  proof (cases "c = LF")
    case True
    then have "split_keepends ((c # t) @ [LF]) = ([LF] # ls) @ [l @ [LF]]"
      by (simp add: sp)
    with l show ?thesis by blast
  next
    case False
    show ?thesis
    proof (cases ls)
      case Nil
      with False sp have "split_keepends ((c # t) @ [LF]) = [] @ [(c # l) @ [LF]]"
        by simp
      moreover from False l have "LF \<notin> set (c # l)" by auto
      ultimately show ?thesis by blast
    next
      case (Cons l0 ls')
      with False sp have "split_keepends ((c # t) @ [LF]) = ((c # l0) # ls') @ [l @ [LF]]"
        by simp
      with l show ?thesis by blast
    qed
  qed
qed

lemma strip_last_line:
  assumes cr: "CR \<notin> set t"
  shows "readlines (t @ [LF]) \<noteq> [] \<and>
     concat ((readlines (t @ [LF])) [length (readlines (t @ [LF])) - 1 :=
        strip_newlines (readlines (t @ [LF]) ! (length (readlines (t @ [LF])) - 1))]) = t"
proof -
  have crlf: "CR \<noteq> LF" by (simp add: CR_def LF_def)
  from cr crlf have "CR \<notin> set (t @ [LF])" by auto
  then have r: "readlines (t @ [LF]) = split_keepends (t @ [LF])"
    by (simp add: readlines_def universal_newlines_id)
  obtain ls l where sp: "split_keepends (t @ [LF]) = ls @ [l @ [LF]]" and l: "LF \<notin> set l"
    using split_keepends_last by blast
  have "concat (ls @ [l @ [LF]]) = t @ [LF]"
    using concat_split_keepends [of "t @ [LF]"] by (simp only: sp)
  then have t: "concat ls @ l = t" by simp
  then have "set l \<subseteq> set t" by auto
  with cr have "CR \<notin> set l" by auto
  with l have "strip_newlines (l @ [LF]) = l"
    by (auto simp: strip_newlines_def filter_id_conv)
  then show ?thesis
    unfolding r sp using t by (simp add: nth_append)
qed


lemma gsv_frame:
  "data_matrix (fst (generate_substituent_vectors c)) = data_matrix c"
  "atom_to_be_functionalized_index (fst (generate_substituent_vectors c))
     = atom_to_be_functionalized_index c"
  "bonded_atom_index (fst (generate_substituent_vectors c)) = bonded_atom_index c"
  by (simp_all add: generate_substituent_vectors_def find_centroid_def Let_def
      split: prod.splits)

lemma init_rows:
  assumes "Complex_init ((l0, p0) # (l1, p1) # rest) = Inr c"
  shows "loc_row (data_matrix c) (atom_to_be_functionalized_index c)
           = Inr (l0, atom_to_be_functionalized_xyz c)"
    and "loc_row (data_matrix c) (bonded_atom_index c) = Inr (l1, bonded_atom_xyz c)"
  using assms
  by (auto simp: Complex_init_def loc_xyz_def loc_row_def Let_def split: prod.splits)

lemma file_append_thrice:
  "file_append (file_append (file_append fs f a) f b) f c f
     = Some ((case fs f of None \<Rightarrow> [] | Some s \<Rightarrow> s) @ a @ b @ c)"
  by (simp add: file_append_def split: option.splits)

lemma file_append_thrice_upd:
  "(file_append (file_append (file_append fs f a) f b) f c) (f \<mapsto> x) = fs (f \<mapsto> x)"
  by (simp add: file_append_def)

lemma write_xyz_result:
  assumes init: "Complex_init ((l0, p0) # (l1, p1) # rest) = Inr c"
    and gsv: "generate_substituent_vectors c = (c', v1, v2, v3)"
    and old: "old = (case fs filename of None \<Rightarrow> [] | Some s \<Rightarrow> s)"
    and cr_old: "CR \<notin> set old"
    and cr_rows: "CR \<notin> set (to_csv fmt_label fmt_num
        [(l0, atom_to_be_functionalized_xyz c), (l1, bonded_atom_xyz c),
         (a1, v1), (a2, v2), (a3, v3)])"
  shows "write_xyz fmt_label fmt_num c fs filename a1 a2 a3 =
     Inr (c', fs (filename \<mapsto>
        old @ ''4'' @ [LF] @ [LF]
        @ csv_row fmt_label fmt_num (l0, atom_to_be_functionalized_xyz c) @ [LF]
        @ csv_row fmt_label fmt_num (l1, bonded_atom_xyz c) @ [LF]
        @ csv_row fmt_label fmt_num (a1, v1) @ [LF]
        @ csv_row fmt_label fmt_num (a2, v2) @ [LF]
        @ csv_row fmt_label fmt_num (a3, v3)))"
proof -
  define t where "t = old @ ''4'' @ [LF] @ [LF]
        @ csv_row fmt_label fmt_num (l0, atom_to_be_functionalized_xyz c) @ [LF]
        @ csv_row fmt_label fmt_num (l1, bonded_atom_xyz c) @ [LF]
        @ csv_row fmt_label fmt_num (a1, v1) @ [LF]
        @ csv_row fmt_label fmt_num (a2, v2) @ [LF]
        @ csv_row fmt_label fmt_num (a3, v3)"
  from gsv have c': "fst (generate_substituent_vectors c) = c'" by simp
  note fr = gsv_frame [of c, unfolded c']
  note rows = init_rows [OF init]
  have crlf: "CR \<noteq> LF" "CR \<noteq> CHR ''4''" by (simp_all add: CR_def LF_def)
  have content: "old @ (''4'' @ [LF]) @ [LF] @ to_csv fmt_label fmt_num
        [(l0, atom_to_be_functionalized_xyz c), (l1, bonded_atom_xyz c),
         (a1, v1), (a2, v2), (a3, v3)] = t @ [LF]"
    by (simp add: t_def to_csv_def)
  have "CR \<notin> set t"
    using cr_old cr_rows crlf by (auto simp: t_def to_csv_def)
  note st = strip_last_line [OF this]
  have fs3: "file_append (file_append (file_append fs filename (''4'' @ [LF])) filename [LF])
      filename (to_csv fmt_label fmt_num
        [(l0, atom_to_be_functionalized_xyz c), (l1, bonded_atom_xyz c),
         (a1, v1), (a2, v2), (a3, v3)]) filename = Some (t @ [LF])"
    by (simp only: file_append_thrice old [symmetric] content)
  have "write_xyz fmt_label fmt_num c fs filename a1 a2 a3 =
     (if readlines (t @ [LF]) = [] then Inl IndexError
      else Inr (c', fs (filename \<mapsto> concat ((readlines (t @ [LF]))
        [length (readlines (t @ [LF])) - 1 :=
           strip_newlines (readlines (t @ [LF]) ! (length (readlines (t @ [LF])) - 1))]))))"
    by (simp only: write_xyz_def gsv prod.case fr rows sum.case Let_def fs3 option.case
        file_append_thrice_upd)
  also have "\<dots> = Inr (c', fs (filename \<mapsto> t))"
    using st by (simp only: if_False)
  finally show ?thesis unfolding t_def .
qed

section \<open>The claims\<close>




text \<open>
  C2. The claim places the centroid at \<open>heavy_atom + (b/3) * u\<close>, \<open>b\<close> being the distance of
  the two atoms. \<^verbatim>\<open>find_centroid\<close> overwrites \<open>b\<close> with \<open>b * 2 * sqrt (2/3)\<close> before it
  divides by 3: with the heavy atom \<open>(0, 0, 0)\<close> and the bonded atom \<open>(0, 0, 1)\<close> the bond
  length is 1 and \<open>u = (0, 0, -1)\<close>, and the returned point is \<open>(0, 0, z)\<close> with \<open>z\<close> within
  \<open>0.001\<close> of \<open>-0.544\<close>: neither \<open>heavy_atom + (1/3) * u = (0, 0, -1/3)\<close> nor the
  \<open>(0, 0, 1/3)\<close> of the claim's example.
\<close>

theorem find_centroid_offset:
  "case Complex_init [(''C'', 0, 0, 0), (''H'', 0, 0, 1)] of
     Inl e \<Rightarrow> False
   | Inr c \<Rightarrow>
       distance (atom_to_be_functionalized_xyz c) (bonded_atom_xyz c) = Fin 1
       \<and> bond_length_norm c = (Fin 0, Fin 0, Fin (- 1))
       \<and> (case snd (find_centroid c) of
            (x, y, z) \<Rightarrow> x = Fin 0 \<and> y = Fin 0 \<and> within_tolerance z (- (544 / 1000)) (1 / 1000))
       \<and> snd (find_centroid c) \<noteq>
           vec_add (atom_to_be_functionalized_xyz c)
             (scal_mul (Fin (1 / 3)) (bond_length_norm c))
       \<and> snd (find_centroid c) \<noteq> (Fin 0, Fin 0, Fin (1 / 3))"
proof -
  define c where "c = projr (Complex_init [(''C'', 0, 0, 0), (''H'', 0, 0, 1)])"
  have init: "Complex_init [(''C'', 0, 0, 0), (''H'', 0, 0, 1)] = Inr c"
    by (simp add: c_def Complex_init_def loc_xyz_def Let_def)
  have h: "atom_to_be_functionalized_xyz c = (Fin 0, Fin 0, Fin 0)"
    and u: "bond_length_norm c = (Fin 0, Fin 0, Fin (- 1))"
    and bd: "bonded_atom_xyz c = (Fin 0, Fin 0, Fin 1)"
    and d: "distance (atom_to_be_functionalized_xyz c) (bonded_atom_xyz c) = Fin 1"
    by (simp_all add: c_def Complex_init_def loc_xyz_def Let_def distance_def)
  have v: "snd (find_centroid c) = (Fin 0, Fin 0, Fin (- (2 * sqrt (2 / 3) / 3)))"
    by (simp add: find_centroid_def Let_def h u bd distance_def)
  have z: "within_tolerance (Fin (- (2 * sqrt (2 / 3) / 3))) (- (544 / 1000)) (1 / 1000)"
  proof -
    have "\<bar>- (2 * sqrt (2 / 3 :: real) / 3) - - (544 / 1000)\<bar> \<le> 1 / 1000"
      using sqrt_two_thirds_bounds by (intro abs_leI) linarith+
    then show ?thesis by (simp only: within_tolerance_def np_float.case)
  qed
  have n1: "snd (find_centroid c) \<noteq>
      vec_add (atom_to_be_functionalized_xyz c) (scal_mul (Fin (1 / 3)) (bond_length_norm c))"
    using scale_neq_one by (simp add: v h u)
  have n2: "snd (find_centroid c) \<noteq> (Fin 0, Fin 0, Fin (1 / 3))"
    using scale_neq_minus_one by (simp add: v)
  from d u z n1 n2 show ?thesis
    by (simp only: init sum.case v prod.case simp_thms)
qed

text \<open>
  C3. The claim says that a bond direction exactly anti-parallel to \<open>[0, 0, 1]\<close> is
  special-cased so that the returned points are finite. The code has no such branch:
  with the heavy atom \<open>(0, 0, 0)\<close> and the bonded atom \<open>(0, 0, 1)\<close> the direction is
  \<open>(0, 0, -1)\<close>, the factor \<open>1 / (1 + c)\<close> is a division by zero, and every component of
  the three returned points is non-finite.
\<close>

theorem antiparallel_bond_nonfinite:
  "case Complex_init [(''C'', 0, 0, 0), (''H'', 0, 0, 1)] of
     Inl e \<Rightarrow> False
   | Inr c \<Rightarrow>
       bond_length_norm c = (Fin 0, Fin 0, Fin (- 1))
       \<and> snd (generate_substituent_vectors c) =
           ((NonFinite, NonFinite, NonFinite), (NonFinite, NonFinite, NonFinite),
            (NonFinite, NonFinite, NonFinite))"
  by (simp add: Complex_init_def loc_xyz_def generate_substituent_vectors_def
      find_centroid_def distance_def Let_def eye3_def zeros3_def)

text \<open>
  C4 (as amended). The claim says that coinciding atoms make the computation fail with
  \<^verbatim>\<open>DegenerateBondError\<close>. The code raises nothing: for every table whose first two rows
  have the same coordinates the constructor returns an object, and
  \<^verbatim>\<open>generate_substituent_vectors\<close> returns three points all of whose components are
  non-finite.
\<close>

theorem coincident_atoms_nonfinite:
  "case Complex_init ((l0, hx, hy, hz) # (l1, hx, hy, hz) # rest) of
     Inl e \<Rightarrow> False
   | Inr c \<Rightarrow>
       snd (generate_substituent_vectors c) =
           ((NonFinite, NonFinite, NonFinite), (NonFinite, NonFinite, NonFinite),
            (NonFinite, NonFinite, NonFinite))"
  by (simp add: Complex_init_def loc_xyz_def generate_substituent_vectors_def
      find_centroid_def distance_def Let_def eye3_def zeros3_def)

text \<open>
  C4 as stated fails: with both atoms at the origin the constructor and
  \<^verbatim>\<open>generate_substituent_vectors\<close> return.
\<close>

theorem coincident_atoms_counterexample:
  "case Complex_init [(''C'', 0, 0, 0), (''H'', 0, 0, 0)] of
     Inl e \<Rightarrow> False
   | Inr c \<Rightarrow>
       snd (generate_substituent_vectors c) =
           ((NonFinite, NonFinite, NonFinite), (NonFinite, NonFinite, NonFinite),
            (NonFinite, NonFinite, NonFinite))"
  by (simp add: Complex_init_def loc_xyz_def generate_substituent_vectors_def
      find_centroid_def distance_def Let_def eye3_def zeros3_def)

text \<open>
  C5. The claim says that repeated calls of \<^verbatim>\<open>generate_substituent_vectors\<close> on the same
  object return the same points and modify no stored state. \<^verbatim>\<open>find_centroid\<close> stores
  the rescaled template back into \<^verbatim>\<open>self.equilateral_triangle\<close>: on the object built
  from the heavy atom \<open>(0, 0, 0)\<close> and the bonded atom \<open>(0, 0, -1)\<close> the first call changes
  the template (the positions stay as they were), and the second call returns points
  different from those of the first.
\<close>

theorem repeated_calls_differ:
  "case Complex_init [(''C'', 0, 0, 0), (''H'', 0, 0, - 1)] of
     Inl e \<Rightarrow> False
   | Inr c0 \<Rightarrow>
      (case generate_substituent_vectors c0 of
         (c1, r1) \<Rightarrow>
           (case generate_substituent_vectors c1 of
              (c2, r2) \<Rightarrow>
                 atom_to_be_functionalized_xyz c1 = atom_to_be_functionalized_xyz c0
                 \<and> bonded_atom_xyz c1 = bonded_atom_xyz c0
                 \<and> equilateral_triangle c1 \<noteq> equilateral_triangle c0
                 \<and> r2 \<noteq> r1))"
  by (simp add: Complex_init_def loc_xyz_def generate_substituent_vectors_def
      find_centroid_def distance_def Let_def eye3_def zeros3_def scale_neq_one)




text \<open>
  C8 (as amended). The claim says that after \<^verbatim>\<open>write_xyz\<close> the file starts with the
  lines \<open>4\<close> and an empty line. The file is opened in append mode, so this holds when the
  file was absent or empty before the call: then (the rendered rows containing no
  carriage return) the file's content is \<open>4\<close>, a newline, a newline, and the five rows
  \<open>label x y z\<close>, separated by single spaces, of the heavy atom, the bonded atom and
  the three substituents in this order, each row but the last followed by a newline.
\<close>

theorem write_xyz_fresh_file:
  assumes init: "Complex_init ((l0, p0) # (l1, p1) # rest) = Inr c"
    and gsv: "generate_substituent_vectors c = (c', v1, v2, v3)"
    and empty: "fs filename = None \<or> fs filename = Some []"
    and cr_rows: "CR \<notin> set (to_csv fmt_label fmt_num
        [(l0, atom_to_be_functionalized_xyz c), (l1, bonded_atom_xyz c),
         (a1, v1), (a2, v2), (a3, v3)])"
  shows "write_xyz fmt_label fmt_num c fs filename a1 a2 a3 =
     Inr (c', fs (filename \<mapsto>
        ''4'' @ [LF] @ [LF]
        @ csv_row fmt_label fmt_num (l0, atom_to_be_functionalized_xyz c) @ [LF]
        @ csv_row fmt_label fmt_num (l1, bonded_atom_xyz c) @ [LF]
        @ csv_row fmt_label fmt_num (a1, v1) @ [LF]
        @ csv_row fmt_label fmt_num (a2, v2) @ [LF]
        @ csv_row fmt_label fmt_num (a3, v3)))"
proof -
  from empty have old: "[] = (case fs filename of None \<Rightarrow> [] | Some s \<Rightarrow> s)"
    by auto
  have "CR \<notin> set []" by simp
  from write_xyz_result [where fs = fs and filename = filename and old = "[]",
      OF init gsv old this cr_rows]
  show ?thesis by simp
qed

theorem write_xyz_fresh_file_witness:
  "Complex_init [(''C'', 0, 0, 0), (''H'', 0, 0, - 1)] = Inr (projr (Complex_init [(''C'', 0, 0, 0), (''H'', 0, 0, - 1)]))
   \<and> ((Map.empty :: filesystem) ''test.xyz'' = None \<or> (Map.empty :: filesystem) ''test.xyz'' = Some [])
   \<and> CR \<notin> set (to_csv (\<lambda>s. s) (\<lambda>x. ''0'')
          [(''C'', atom_to_be_functionalized_xyz (projr (Complex_init [(''C'', 0, 0, 0), (''H'', 0, 0, - 1)]))), (''H'', bonded_atom_xyz (projr (Complex_init [(''C'', 0, 0, 0), (''H'', 0, 0, - 1)]))),
           (''H'', fst (snd (generate_substituent_vectors (projr (Complex_init [(''C'', 0, 0, 0), (''H'', 0, 0, - 1)]))))),
           (''H'', fst (snd (snd (generate_substituent_vectors (projr (Complex_init [(''C'', 0, 0, 0), (''H'', 0, 0, - 1)])))))),
           (''H'', snd (snd (snd (generate_substituent_vectors (projr (Complex_init [(''C'', 0, 0, 0), (''H'', 0, 0, - 1)]))))))])
   \<and> write_xyz (\<lambda>s. s) (\<lambda>x. ''0'') (projr (Complex_init [(''C'', 0, 0, 0), (''H'', 0, 0, - 1)])) (Map.empty :: filesystem) ''test.xyz'' ''H'' ''H'' ''H'' =
       Inr (fst (generate_substituent_vectors (projr (Complex_init [(''C'', 0, 0, 0), (''H'', 0, 0, - 1)]))),
            (Map.empty :: filesystem) (''test.xyz'' \<mapsto>
              ''4'' @ [LF] @ [LF]
              @ csv_row (\<lambda>s. s) (\<lambda>x. ''0'') (''C'', atom_to_be_functionalized_xyz (projr (Complex_init [(''C'', 0, 0, 0), (''H'', 0, 0, - 1)]))) @ [LF]
              @ csv_row (\<lambda>s. s) (\<lambda>x. ''0'') (''H'', bonded_atom_xyz (projr (Complex_init [(''C'', 0, 0, 0), (''H'', 0, 0, - 1)]))) @ [LF]
              @ csv_row (\<lambda>s. s) (\<lambda>x. ''0'')
                  (''H'', fst (snd (generate_substituent_vectors (projr (Complex_init [(''C'', 0, 0, 0), (''H'', 0, 0, - 1)]))))) @ [LF]
              @ csv_row (\<lambda>s. s) (\<lambda>x. ''0'')
                  (''H'', fst (snd (snd (generate_substituent_vectors (projr (Complex_init [(''C'', 0, 0, 0), (''H'', 0, 0, - 1)])))))) @ [LF]
              @ csv_row (\<lambda>s. s) (\<lambda>x. ''0'')
                  (''H'', snd (snd (snd (generate_substituent_vectors (projr (Complex_init [(''C'', 0, 0, 0), (''H'', 0, 0, - 1)]))))))))"
proof -
  define c where "c = (projr (Complex_init [(''C'', 0, 0, 0), (''H'', 0, 0, - 1)]))"
  have init: "Complex_init [(''C'', (0, 0, 0)), (''H'', (0, 0, - 1))] = Inr c"
    by (simp add: c_def Complex_init_def loc_xyz_def Let_def)
  have g: "generate_substituent_vectors c =
      (fst (generate_substituent_vectors c), fst (snd (generate_substituent_vectors c)),
       fst (snd (snd (generate_substituent_vectors c))),
       snd (snd (snd (generate_substituent_vectors c))))"
    by simp
  have e: "(Map.empty :: filesystem) ''test.xyz'' = None \<or> (Map.empty :: filesystem) ''test.xyz'' = Some []"
    by simp
  have cr: "CR \<notin> set (to_csv (\<lambda>s. s) (\<lambda>x. ''0'')
          [(''C'', atom_to_be_functionalized_xyz c), (''H'', bonded_atom_xyz c),
           (''H'', fst (snd (generate_substituent_vectors c))),
           (''H'', fst (snd (snd (generate_substituent_vectors c)))),
           (''H'', snd (snd (snd (generate_substituent_vectors c))))])"
    by (simp add: to_csv_def csv_row_def CR_def LF_def split: prod.splits)
  from write_xyz_fresh_file [where fs = "(Map.empty :: filesystem)"
      and filename = "''test.xyz''", OF init g e cr] init e cr
  show ?thesis unfolding c_def by blast
qed

text \<open>
  C8 as stated fails: when the file holds the line \<open>x\<close> before the call, its first line is
  still \<open>x\<close> afterwards, and the header follows it.
\<close>

theorem write_xyz_fresh_file_counterexample:
  "case Complex_init [(''C'', 0, 0, 0), (''H'', 0, 0, - 1)] of
     Inl e \<Rightarrow> False
   | Inr c \<Rightarrow>
      (case write_xyz (\<lambda>s. s) (\<lambda>x. ''0'') c [''test.xyz'' \<mapsto> ''x'' @ [LF]]
              ''test.xyz'' ''H'' ''H'' ''H'' of
         Inl e \<Rightarrow> False
       | Inr (c', fs') \<Rightarrow>
           fs' ''test.xyz'' =
             Some (''x'' @ [LF] @ ''4'' @ [LF] @ [LF] @ ''C 0 0 0'' @ [LF] @ ''H 0 0 0'' @ [LF]
                   @ ''H 0 0 0'' @ [LF] @ ''H 0 0 0'' @ [LF] @ ''H 0 0 0'')
           \<and> take 3 (the (fs' ''test.xyz'')) \<noteq> ''4'' @ [LF] @ [LF])"
  by (simp add: Complex_init_def loc_xyz_def loc_row_def Let_def write_xyz_def
      generate_substituent_vectors_def find_centroid_def distance_def eye3_def zeros3_def
      file_append_def to_csv_def csv_row_def readlines_def strip_newlines_def CR_def LF_def)

text \<open>
  C9 (as amended). The claim says that every pre-existing content stays, unchanged, a
  prefix of the file. The last step of \<^verbatim>\<open>write_xyz\<close> reads the whole file in text mode and
  writes it back, which turns every \<^verbatim>\<open>\r\n\<close> and \<^verbatim>\<open>\r\<close> of the old content into \<^verbatim>\<open>\n\<close>. So:
  for every pre-existing content that contains no carriage return (the rendered rows
  containing none either), after the call the file's content is the old content
  followed by \<open>4\<close>, a newline, a newline and the five rows, each row but the last followed
  by a newline.
\<close>

theorem write_xyz_appends:
  assumes init: "Complex_init ((l0, p0) # (l1, p1) # rest) = Inr c"
    and gsv: "generate_substituent_vectors c = (c', v1, v2, v3)"
    and existing: "fs filename = Some old"
    and cr_old: "CR \<notin> set old"
    and cr_rows: "CR \<notin> set (to_csv fmt_label fmt_num
        [(l0, atom_to_be_functionalized_xyz c), (l1, bonded_atom_xyz c),
         (a1, v1), (a2, v2), (a3, v3)])"
  shows "write_xyz fmt_label fmt_num c fs filename a1 a2 a3 =
     Inr (c', fs (filename \<mapsto>
        old @ ''4'' @ [LF] @ [LF]
        @ csv_row fmt_label fmt_num (l0, atom_to_be_functionalized_xyz c) @ [LF]
        @ csv_row fmt_label fmt_num (l1, bonded_atom_xyz c) @ [LF]
        @ csv_row fmt_label fmt_num (a1, v1) @ [LF]
        @ csv_row fmt_label fmt_num (a2, v2) @ [LF]
        @ csv_row fmt_label fmt_num (a3, v3)))"
proof -
  from existing have old: "old = (case fs filename of None \<Rightarrow> [] | Some s \<Rightarrow> s)"
    by simp
  from write_xyz_result [where fs = fs and filename = filename and old = old,
      OF init gsv old cr_old cr_rows]
  show ?thesis .
qed

theorem write_xyz_appends_witness:
  "Complex_init [(''C'', 0, 0, 0), (''H'', 0, 0, - 1)] = Inr (projr (Complex_init [(''C'', 0, 0, 0), (''H'', 0, 0, - 1)]))
   \<and> [''test.xyz'' \<mapsto> ''x'' @ [LF]] ''test.xyz'' = Some (''x'' @ [LF]) \<and> CR \<notin> set (''x'' @ [LF])
   \<and> CR \<notin> set (to_csv (\<lambda>s. s) (\<lambda>x. ''0'')
          [(''C'', atom_to_be_functionalized_xyz (projr (Complex_init [(''C'', 0, 0, 0), (''H'', 0, 0, - 1)]))), (''H'', bonded_atom_xyz (projr (Complex_init [(''C'', 0, 0, 0), (''H'', 0, 0, - 1)]))),
           (''H'', fst (snd (generate_substituent_vectors (projr (Complex_init [(''C'', 0, 0, 0), (''H'', 0, 0, - 1)]))))),
           (''H'', fst (snd (snd (generate_substituent_vectors (projr (Complex_init [(''C'', 0, 0, 0), (''H'', 0, 0, - 1)])))))),
           (''H'', snd (snd (snd (generate_substituent_vectors (projr (Complex_init [(''C'', 0, 0, 0), (''H'', 0, 0, - 1)]))))))])
   \<and> write_xyz (\<lambda>s. s) (\<lambda>x. ''0'') (projr (Complex_init [(''C'', 0, 0, 0), (''H'', 0, 0, - 1)])) [''test.xyz'' \<mapsto> ''x'' @ [LF]] ''test.xyz'' ''H'' ''H'' ''H'' =
       Inr (fst (generate_substituent_vectors (projr (Complex_init [(''C'', 0, 0, 0), (''H'', 0, 0, - 1)]))),
            [''test.xyz'' \<mapsto> ''x'' @ [LF]] (''test.xyz'' \<mapsto>
              (''x'' @ [LF]) @ ''4'' @ [LF] @ [LF]
              @ csv_row (\<lambda>s. s) (\<lambda>x. ''0'') (''C'', atom_to_be_functionalized_xyz (projr (Complex_init [(''C'', 0, 0, 0), (''H'', 0, 0, - 1)]))) @ [LF]
              @ csv_row (\<lambda>s. s) (\<lambda>x. ''0'') (''H'', bonded_atom_xyz (projr (Complex_init [(''C'', 0, 0, 0), (''H'', 0, 0, - 1)]))) @ [LF]
              @ csv_row (\<lambda>s. s) (\<lambda>x. ''0'')
                  (''H'', fst (snd (generate_substituent_vectors (projr (Complex_init [(''C'', 0, 0, 0), (''H'', 0, 0, - 1)]))))) @ [LF]
              @ csv_row (\<lambda>s. s) (\<lambda>x. ''0'')
                  (''H'', fst (snd (snd (generate_substituent_vectors (projr (Complex_init [(''C'', 0, 0, 0), (''H'', 0, 0, - 1)])))))) @ [LF]
              @ csv_row (\<lambda>s. s) (\<lambda>x. ''0'')
                  (''H'', snd (snd (snd (generate_substituent_vectors (projr (Complex_init [(''C'', 0, 0, 0), (''H'', 0, 0, - 1)]))))))))"
proof -
  define c where "c = (projr (Complex_init [(''C'', 0, 0, 0), (''H'', 0, 0, - 1)]))"
  have init: "Complex_init [(''C'', (0, 0, 0)), (''H'', (0, 0, - 1))] = Inr c"
    by (simp add: c_def Complex_init_def loc_xyz_def Let_def)
  have g: "generate_substituent_vectors c =
      (fst (generate_substituent_vectors c), fst (snd (generate_substituent_vectors c)),
       fst (snd (snd (generate_substituent_vectors c))),
       snd (snd (snd (generate_substituent_vectors c))))"
    by simp
  have e: "[''test.xyz'' \<mapsto> ''x'' @ [LF]] ''test.xyz'' = Some (''x'' @ [LF])"
    by simp
  have o: "CR \<notin> set (''x'' @ [LF])"
    by (simp add: CR_def LF_def)
  have cr: "CR \<notin> set (to_csv (\<lambda>s. s) (\<lambda>x. ''0'')
          [(''C'', atom_to_be_functionalized_xyz c), (''H'', bonded_atom_xyz c),
           (''H'', fst (snd (generate_substituent_vectors c))),
           (''H'', fst (snd (snd (generate_substituent_vectors c)))),
           (''H'', snd (snd (snd (generate_substituent_vectors c))))])"
    by (simp add: to_csv_def csv_row_def CR_def LF_def split: prod.splits)
  from write_xyz_appends [where fs = "[''test.xyz'' \<mapsto> ''x'' @ [LF]]"
      and filename = "''test.xyz''", OF init g e o cr] init e o cr
  show ?thesis unfolding c_def by blast
qed

text \<open>
  C9 as stated fails: the old content \<^verbatim>\<open>x\r\n\<close> is not a prefix of the file after the
  call, which starts with \<^verbatim>\<open>x\n\<close>.
\<close>

theorem write_xyz_appends_counterexample:
  "case Complex_init [(''C'', 0, 0, 0), (''H'', 0, 0, - 1)] of
     Inl e \<Rightarrow> False
   | Inr c \<Rightarrow>
      (case write_xyz (\<lambda>s. s) (\<lambda>x. ''0'') c [''test.xyz'' \<mapsto> ''x'' @ [CR, LF]]
              ''test.xyz'' ''H'' ''H'' ''H'' of
         Inl e \<Rightarrow> False
       | Inr (c', fs') \<Rightarrow>
           fs' ''test.xyz'' =
             Some (''x'' @ [LF] @ ''4'' @ [LF] @ [LF] @ ''C 0 0 0'' @ [LF] @ ''H 0 0 0'' @ [LF]
                   @ ''H 0 0 0'' @ [LF] @ ''H 0 0 0'' @ [LF] @ ''H 0 0 0'')
           \<and> take (length (''x'' @ [CR, LF])) (the (fs' ''test.xyz'')) \<noteq> ''x'' @ [CR, LF])"
  by (simp add: Complex_init_def loc_xyz_def loc_row_def Let_def write_xyz_def
      generate_substituent_vectors_def find_centroid_def distance_def eye3_def zeros3_def
      file_append_def to_csv_def csv_row_def readlines_def strip_newlines_def CR_def LF_def)

end
